theory Spec2Isabelle
  imports Complex_Main "HOL-Library.Word"
begin

section \<open>The remote-generation request pipeline of ImageStudio\<close>

text \<open>
  The repository holds two variants of the same React component: \<^verbatim>\<open>src/ImageStudio.jsx\<close>
  and \<^verbatim>\<open>src/unnamed/part_001\<close>. Both define \<^verbatim>\<open>fetchWithRetry\<close>, \<^verbatim>\<open>fileToBase64\<close> and
  \<^verbatim>\<open>handleGenerate\<close>. The definitions that carry the plain source name embed
  \<^verbatim>\<open>ImageStudio.jsx\<close>; the ones with the suffix \<open>_part001\<close> embed \<^verbatim>\<open>part_001\<close>.

  Everything the code does to the outside (a \<^verbatim>\<open>fetch\<close>, a timer, a \<^verbatim>\<open>FileReader\<close> read, a
  \<^verbatim>\<open>Math.random()\<close>) is written into an explicit \<open>world\<close> that is passed along; what the
  outside answers is read from an \<open>env\<close>, indexed by the number of the call. An \<open>env\<close> is
  arbitrary in the theorems, so they hold whatever the network, the reader and the random
  numbers do.

  Delays are real numbers of milliseconds; the rounding of JavaScript's doubles, the
  console output and the wall clock (\<^verbatim>\<open>Date.now()\<close>) are not modelled.

  The prompt that the user types is a JavaScript string, a sequence of 16-bit code units,
  because \<^verbatim>\<open>trim\<close> looks at characters beyond ASCII. The other texts (types, data URLs,
  bodies) are only compared, joined or split at a comma and stay \<open>string\<close>.
\<close>

type_synonym code_unit = "16 word"

subsection \<open>Errors, responses and the environment\<close>

text \<open>The values that are thrown or used to reject a promise.\<close>

datatype js_error =
    AbortError                          \<comment> \<open>the 60 s timer called \<^verbatim>\<open>controller.abort()\<close>\<close>
  | NetworkError                        \<comment> \<open>\<^verbatim>\<open>fetch\<close> rejected for another reason\<close>
  | FUNCTION_PAYLOAD_TOO_LARGE          \<comment> \<open>\<^verbatim>\<open>new Error('FUNCTION_PAYLOAD_TOO_LARGE')\<close>\<close>
  | FUNCTION_INVOCATION_TIMEOUT         \<comment> \<open>\<^verbatim>\<open>new Error('FUNCTION_INVOCATION_TIMEOUT')\<close>\<close>
  | ApiError nat string                 \<comment> \<open>\<^verbatim>\<open>new Error(`Erro na API: ${status} - ${errorBody}`)\<close>\<close>
  | BodyError                           \<comment> \<open>\<^verbatim>\<open>response.text()\<close> or \<^verbatim>\<open>response.json()\<close> rejected\<close>
  | ImageTooLarge                       \<comment> \<open>the rejection of \<^verbatim>\<open>fileToBase64\<close> for a file over the limit\<close>
  | ReaderError                         \<comment> \<open>\<^verbatim>\<open>reader.onerror\<close>\<close>
  | TypeError                           \<comment> \<open>a property read on \<^verbatim>\<open>null\<close> or \<^verbatim>\<open>undefined\<close>\<close>

text \<open>
  The JSON body of a generation response, as far as \<^verbatim>\<open>handleGenerate\<close> reads it:
  \<^verbatim>\<open>result?.candidates?.[0]\<close>, its \<^verbatim>\<open>finishReason\<close>, its \<^verbatim>\<open>content?.parts\<close>, each part's
  \<^verbatim>\<open>inlineData\<close> with \<^verbatim>\<open>data\<close> and \<^verbatim>\<open>mimeType\<close>, and \<^verbatim>\<open>result.error\<close>. \<open>None\<close> is
  \<^verbatim>\<open>undefined\<close>; a missing \<^verbatim>\<open>candidates\<close> is the empty list, which has no first element
  either.
\<close>

datatype inline_data = InlineData (inline_data: "string option") (inline_mimeType: "string option")

datatype part = Part (part_inlineData: "inline_data option")

datatype candidate = Candidate (finishReason: "string option") (content_parts: "part list option")

datatype gen_result = GenResult (candidates: "candidate list") (result_error: "string option")

datatype json_body =
    JsonRejects                         \<comment> \<open>\<^verbatim>\<open>response.json()\<close> rejects (the body is not JSON)\<close>
  | JsonNull                            \<comment> \<open>the body is the JSON value \<^verbatim>\<open>null\<close>\<close>
  | JsonValue gen_result                \<comment> \<open>any other JSON value\<close>

record response =
  status :: nat
  body_text :: "js_error + string"      \<comment> \<open>what \<^verbatim>\<open>await response.text()\<close> gives\<close>
  body_json :: json_body                \<comment> \<open>what \<^verbatim>\<open>await response.json()\<close> gives\<close>

definition ok :: "response \<Rightarrow> bool" where
  \<comment> \<open>\<^verbatim>\<open>response.ok\<close> of the Fetch API: the status is in the range 200 to 299.\<close>
  "ok r = (200 \<le> status r \<and> status r \<le> 299)"

text \<open>
  What an awaited \<^verbatim>\<open>fetch\<close> settles to. In \<^verbatim>\<open>ImageStudio.jsx\<close> a request that takes more than
  \<^verbatim>\<open>REQUEST_TIMEOUT\<close> (60 s) is aborted and rejects with \<open>AbortError\<close>.
\<close>

datatype fetch_result = Responded response | Rejected js_error

text \<open>
  A request body of \<^verbatim>\<open>handleGenerate\<close>. The query text is the base prompt followed by a
  suffix that names the variation number (and, in \<^verbatim>\<open>part_001\<close>, the attempt number); the
  suffix is kept as these numbers instead of the Portuguese sentence around them.
\<close>

record payload =
  query_base :: string                  \<comment> \<open>\<^verbatim>\<open>finalPromptBase\<close>\<close>
  query_variation :: nat                \<comment> \<open>\<^verbatim>\<open>currentImageNumber\<close> in the suffix\<close>
  query_attempt :: "nat option"         \<comment> \<open>\<^verbatim>\<open>attemptCount\<close> in the suffix (\<^verbatim>\<open>part_001\<close> only)\<close>
  inline_type :: string                 \<comment> \<open>\<^verbatim>\<open>referenceImage.type\<close>\<close>
  inline_base64 :: "string option"      \<comment> \<open>\<^verbatim>\<open>base64ImageData\<close>\<close>

record image_file =
  file_size :: nat                      \<comment> \<open>\<^verbatim>\<open>file.size\<close>, in bytes\<close>
  file_type :: string                   \<comment> \<open>\<^verbatim>\<open>file.type\<close>\<close>
  file_dataURL :: string                \<comment> \<open>the text \<^verbatim>\<open>readAsDataURL\<close> produces for this file\<close>

datatype event =
    EvFetch payload                     \<comment> \<open>a call of \<^verbatim>\<open>fetch\<close>\<close>
  | EvSleep real                        \<comment> \<open>an awaited \<^verbatim>\<open>setTimeout\<close>, in milliseconds\<close>
  | EvRead image_file                   \<comment> \<open>a call of \<^verbatim>\<open>reader.readAsDataURL\<close>\<close>

record env =
  fetch_outcome :: "nat \<Rightarrow> fetch_result"  \<comment> \<open>what the k-th \<^verbatim>\<open>fetch\<close> settles to\<close>
  random_outcome :: "nat \<Rightarrow> real"         \<comment> \<open>what the k-th \<^verbatim>\<open>Math.random()\<close> returns\<close>
  read_outcome :: "nat \<Rightarrow> bool"           \<comment> \<open>whether the k-th read fires \<^verbatim>\<open>onload\<close> (else \<^verbatim>\<open>onerror\<close>)\<close>

record world =
  trace :: "event list"                 \<comment> \<open>the effects so far, oldest first\<close>
  nfetch :: nat                         \<comment> \<open>calls of \<^verbatim>\<open>fetch\<close> so far\<close>
  nrandom :: nat                        \<comment> \<open>calls of \<^verbatim>\<open>Math.random()\<close> so far\<close>
  nread :: nat                          \<comment> \<open>reads started so far\<close>

definition sent :: "payload \<Rightarrow> world \<Rightarrow> world" where
  \<comment> \<open>the world after one more \<^verbatim>\<open>fetch\<close> with the request \<open>rq\<close>\<close>
  "sent rq w = w\<lparr>trace := trace w @ [EvFetch rq], nfetch := Suc (nfetch w)\<rparr>"

definition fetch :: "env \<Rightarrow> payload \<Rightarrow> world \<Rightarrow> fetch_result \<times> world" where
  "fetch e rq w = (fetch_outcome e (nfetch w), sent rq w)"

definition drawn :: "world \<Rightarrow> world" where
  \<comment> \<open>the world after one more \<^verbatim>\<open>Math.random()\<close>\<close>
  "drawn w = w\<lparr>nrandom := Suc (nrandom w)\<rparr>"

definition Math_random :: "env \<Rightarrow> world \<Rightarrow> real \<times> world" where
  "Math_random e w = (random_outcome e (nrandom w), drawn w)"

definition setTimeout :: "real \<Rightarrow> world \<Rightarrow> world" where
  \<comment> \<open>\<^verbatim>\<open>await new Promise(resolve => setTimeout(resolve, delay))\<close>\<close>
  "setTimeout delay w = w\<lparr>trace := trace w @ [EvSleep delay]\<rparr>"

subsection \<open>The transport wrapper\<close>

definition MAX_RETRIES :: nat where
  "MAX_RETRIES = 3"

text \<open>How the body of a \<^verbatim>\<open>try\<close> or \<^verbatim>\<open>catch\<close> block inside the loop ends.\<close>

datatype completion =
    Return response
  | Continue                            \<comment> \<open>\<^verbatim>\<open>continue\<close>, or the end of the block: next iteration\<close>
  | Throw js_error

text \<open>
  The \<^verbatim>\<open>try\<close> block of \<^verbatim>\<open>fetchWithRetry\<close> in \<^verbatim>\<open>ImageStudio.jsx\<close>. The loop counter \<open>i\<close> and
  \<open>retries\<close> are naturals, so \<^verbatim>\<open>i < retries - 1\<close> is written \<open>Suc i < retries\<close>.
\<close>

definition try_block :: "env \<Rightarrow> payload \<Rightarrow> nat \<Rightarrow> nat \<Rightarrow> world \<Rightarrow> completion \<times> world" where
  "try_block e rq retries i w =
     (case fetch e rq w of
        (Rejected err, w1) \<Rightarrow> (Throw err, w1)
      | (Responded r, w1) \<Rightarrow>
          if status r = 429 \<and> Suc i < retries then
            (case Math_random e w1 of
               (x, w2) \<Rightarrow> (Continue, setTimeout (2 ^ i * 1000 + x * 1000) w2))
          else if status r = 413 then (Throw FUNCTION_PAYLOAD_TOO_LARGE, w1)
          else if status r = 504 then (Throw FUNCTION_INVOCATION_TIMEOUT, w1)
          else if \<not> ok r then
            (case body_text r of
               Inl err \<Rightarrow> (Throw err, w1)
             | Inr errorBody \<Rightarrow> (Throw (ApiError (status r) errorBody), w1))
          else (Return r, w1))"

definition catch_block :: "nat \<Rightarrow> nat \<Rightarrow> js_error \<Rightarrow> world \<Rightarrow> completion \<times> world" where
  "catch_block retries i err w =
     (if Suc i = retries then (Throw err, w)
      else (Continue, setTimeout (2 ^ i * 1000) w))"

definition iteration :: "env \<Rightarrow> payload \<Rightarrow> nat \<Rightarrow> nat \<Rightarrow> world \<Rightarrow> completion \<times> world" where
  \<comment> \<open>one pass through the loop body: the \<^verbatim>\<open>try\<close> block, and the \<^verbatim>\<open>catch\<close> block on a throw\<close>
  "iteration e rq retries i w =
     (case try_block e rq retries i w of
        (Throw err, w1) \<Rightarrow> catch_block retries i err w1
      | other \<Rightarrow> other)"

text \<open>
  The \<^verbatim>\<open>for\<close> loop from counter \<open>i\<close> on. The result is \<open>Inl\<close> for a rejected promise,
  \<open>Inr (Some r)\<close> for a returned response and \<open>Inr None\<close> when the loop ends without a
  \<^verbatim>\<open>return\<close> (the promise resolves to \<^verbatim>\<open>undefined\<close>).
\<close>

function fetchWithRetry_from ::
  "env \<Rightarrow> payload \<Rightarrow> nat \<Rightarrow> nat \<Rightarrow> world \<Rightarrow> (js_error + response option) \<times> world" where
  "fetchWithRetry_from e rq retries i w =
     (if i < retries then
        (case iteration e rq retries i w of
           (Return r, w1) \<Rightarrow> (Inr (Some r), w1)
         | (Throw err, w1) \<Rightarrow> (Inl err, w1)
         | (Continue, w1) \<Rightarrow> fetchWithRetry_from e rq retries (Suc i) w1)
      else (Inr None, w))"
  by pat_completeness auto
termination
  by (relation "measure (\<lambda>(e, rq, retries, i, w). retries - i)") auto

declare fetchWithRetry_from.simps [simp del]

definition fetchWithRetry ::
  "env \<Rightarrow> payload \<Rightarrow> nat \<Rightarrow> world \<Rightarrow> (js_error + response option) \<times> world" where
  "fetchWithRetry e rq retries w = fetchWithRetry_from e rq retries 0 w"

text \<open>
  \<^verbatim>\<open>fetchWithRetry\<close> of \<^verbatim>\<open>part_001\<close>: no timer, no case for 413 or 504, and a \<^verbatim>\<open>catch\<close>
  block that does not wait.
\<close>

definition try_block_part001 :: "env \<Rightarrow> payload \<Rightarrow> nat \<Rightarrow> nat \<Rightarrow> world \<Rightarrow> completion \<times> world" where
  "try_block_part001 e rq retries i w =
     (case fetch e rq w of
        (Rejected err, w1) \<Rightarrow> (Throw err, w1)
      | (Responded r, w1) \<Rightarrow>
          if status r = 429 \<and> Suc i < retries then
            (case Math_random e w1 of
               (x, w2) \<Rightarrow> (Continue, setTimeout (2 ^ i * 1000 + x * 1000) w2))
          else if \<not> ok r then
            (case body_text r of
               Inl err \<Rightarrow> (Throw err, w1)
             | Inr errorBody \<Rightarrow> (Throw (ApiError (status r) errorBody), w1))
          else (Return r, w1))"

definition catch_block_part001 :: "nat \<Rightarrow> nat \<Rightarrow> js_error \<Rightarrow> world \<Rightarrow> completion \<times> world" where
  "catch_block_part001 retries i err w =
     (if Suc i = retries then (Throw err, w) else (Continue, w))"

definition iteration_part001 :: "env \<Rightarrow> payload \<Rightarrow> nat \<Rightarrow> nat \<Rightarrow> world \<Rightarrow> completion \<times> world" where
  "iteration_part001 e rq retries i w =
     (case try_block_part001 e rq retries i w of
        (Throw err, w1) \<Rightarrow> catch_block_part001 retries i err w1
      | other \<Rightarrow> other)"

function fetchWithRetry_from_part001 ::
  "env \<Rightarrow> payload \<Rightarrow> nat \<Rightarrow> nat \<Rightarrow> world \<Rightarrow> (js_error + response option) \<times> world" where
  "fetchWithRetry_from_part001 e rq retries i w =
     (if i < retries then
        (case iteration_part001 e rq retries i w of
           (Return r, w1) \<Rightarrow> (Inr (Some r), w1)
         | (Throw err, w1) \<Rightarrow> (Inl err, w1)
         | (Continue, w1) \<Rightarrow> fetchWithRetry_from_part001 e rq retries (Suc i) w1)
      else (Inr None, w))"
  by pat_completeness auto
termination
  by (relation "measure (\<lambda>(e, rq, retries, i, w). retries - i)") auto

declare fetchWithRetry_from_part001.simps [simp del]

definition fetchWithRetry_part001 ::
  "env \<Rightarrow> payload \<Rightarrow> nat \<Rightarrow> world \<Rightarrow> (js_error + response option) \<times> world" where
  "fetchWithRetry_part001 e rq retries w = fetchWithRetry_from_part001 e rq retries 0 w"

subsection \<open>The encode step\<close>

definition MAX_IMAGE_SIZE :: nat where
  "MAX_IMAGE_SIZE = 4 * 1024 * 1024"

fun split_on :: "char \<Rightarrow> string \<Rightarrow> string list" where
  \<comment> \<open>\<^verbatim>\<open>s.split(c)\<close> for a one-character separator\<close>
  "split_on c [] = [[]]"
| "split_on c (x # xs) =
     (if x = c then [] # split_on c xs
      else (case split_on c xs of
              [] \<Rightarrow> [[x]]
            | y # ys \<Rightarrow> (x # y) # ys))"

definition index :: "'a list \<Rightarrow> nat \<Rightarrow> 'a option" where
  \<comment> \<open>\<^verbatim>\<open>xs[n]\<close>: \<^verbatim>\<open>undefined\<close> out of range\<close>
  "index xs n = (if n < length xs then Some (xs ! n) else None)"

definition started :: "image_file \<Rightarrow> world \<Rightarrow> world" where
  \<comment> \<open>the world after one more \<^verbatim>\<open>reader.readAsDataURL(file)\<close>\<close>
  "started f w = w\<lparr>trace := trace w @ [EvRead f], nread := Suc (nread w)\<rparr>"

definition readAsDataURL :: "env \<Rightarrow> image_file \<Rightarrow> world \<Rightarrow> (js_error + string) \<times> world" where
  \<comment> \<open>the reader is started, and then fires \<^verbatim>\<open>onload\<close> with its result or \<^verbatim>\<open>onerror\<close>\<close>
  "readAsDataURL e f w =
     (if read_outcome e (nread w) then Inr (file_dataURL f) else Inl ReaderError, started f w)"

definition fileToBase64 :: "env \<Rightarrow> image_file \<Rightarrow> world \<Rightarrow> (js_error + string option) \<times> world" where
  "fileToBase64 e f w =
     (if file_size f > MAX_IMAGE_SIZE then (Inl ImageTooLarge, w)
      else (case readAsDataURL e f w of
              (Inl err, w1) \<Rightarrow> (Inl err, w1)
            | (Inr result, w1) \<Rightarrow> (Inr (index (split_on CHR '','' result) 1), w1)))"

definition fileToBase64_part001 ::
  "env \<Rightarrow> image_file \<Rightarrow> world \<Rightarrow> (js_error + string option) \<times> world" where
  "fileToBase64_part001 e f w =
     (case readAsDataURL e f w of
        (Inl err, w1) \<Rightarrow> (Inl err, w1)
      | (Inr result, w1) \<Rightarrow> (Inr (index (split_on CHR '','' result) 1), w1))"

subsection \<open>The generation orchestrator\<close>

datatype gen_mode = Generate | Restore

text \<open>What the callback closes over: the component state that \<^verbatim>\<open>handleGenerate\<close> reads.\<close>

record inputs =
  mode :: gen_mode
  prompt :: "code_unit list"
  referenceImage :: "image_file option"
  optimizedPrompt :: string
  candidateCount :: int                 \<comment> \<open>\<^verbatim>\<open>advancedParams.candidateCount\<close>\<close>

text \<open>The texts shown to the user, by the place that sets them.\<close>

datatype message =
    NoReferenceImage                    \<comment> \<open>"Por favor, carregue uma imagem de referencia."\<close>
  | NoPrompt                            \<comment> \<open>"Por favor, forneca uma descricao para a geracao."\<close>
  | NothingGenerated                    \<comment> \<open>"Nao foi possivel gerar nenhuma imagem. ..."\<close>
  | Generated nat                       \<comment> \<open>"Sucesso! n imagem(ns) gerada(s) em ...s"\<close>
  | VercelError js_error                \<comment> \<open>\<^verbatim>\<open>handleVercelError(err)\<close>\<close>
  | NoPromptOrImage                     \<comment> \<open>\<^verbatim>\<open>part_001\<close>: "... forneca um prompt de texto e uma imagem ..."\<close>
  | NoPhoto                             \<comment> \<open>\<^verbatim>\<open>part_001\<close>: "Por favor, envie uma foto para ser restaurada."\<close>
  | Critical js_error                   \<comment> \<open>\<^verbatim>\<open>part_001\<close>: "Ocorreu um erro CRITICO: ... O processo foi interrompido."\<close>

text \<open>
  The component state that \<^verbatim>\<open>handleGenerate\<close> writes. The processing time (a difference of
  two \<^verbatim>\<open>Date.now()\<close>) and the captions and background suggestions, which are only
  cleared, are left out.
\<close>

record ui =
  generatedImages :: "string list"
  error :: "message option"
  successMessage :: "message option"
  loading :: bool
  currentImageIndex :: nat
  currentGeneratingIndex :: nat

datatype attempt_outcome =
    Produced string                     \<comment> \<open>the data URL pushed on \<^verbatim>\<open>newGeneratedImages\<close>\<close>
  | NoImage "string option"             \<comment> \<open>no image data; the \<^verbatim>\<open>finishReason\<close> that is logged\<close>
  | Failed js_error                     \<comment> \<open>an exception inside the attempt\<close>

text \<open>
  The locals of \<^verbatim>\<open>handleGenerate\<close> with the component state and the outside world.
  \<open>attemptLog\<close> is a history variable that the source does not have: the value of
  \<^verbatim>\<open>attemptCount\<close> and the outcome of every pass through the loop, oldest first.
\<close>

record session =
  newGeneratedImages :: "string list"
  attemptCount :: nat
  attemptLog :: "(nat \<times> attempt_outcome) list"
  view :: ui
  outside :: world

definition truthy :: "string option \<Rightarrow> bool" where
  \<comment> \<open>a string or \<^verbatim>\<open>undefined\<close> as a condition: false for \<^verbatim>\<open>undefined\<close> and for \<^verbatim>\<open>""\<close>\<close>
  "truthy s = (case s of None \<Rightarrow> False | Some t \<Rightarrow> t \<noteq> [])"

definition first_candidate :: "json_body \<Rightarrow> candidate option" where
  \<comment> \<open>\<^verbatim>\<open>result?.candidates?.[0]\<close>\<close>
  "first_candidate b =
     (case b of
        JsonValue res \<Rightarrow> (case candidates res of [] \<Rightarrow> None | c # cs \<Rightarrow> Some c)
      | other \<Rightarrow> None)"

definition found_inlineData :: "candidate option \<Rightarrow> inline_data option" where
  \<comment> \<open>\<^verbatim>\<open>candidate?.content?.parts?.find(p => p.inlineData)?.inlineData\<close>\<close>
  "found_inlineData c =
     (case c of
        None \<Rightarrow> None
      | Some cd \<Rightarrow>
          (case content_parts cd of
             None \<Rightarrow> None
           | Some ps \<Rightarrow>
               (case find (\<lambda>p. part_inlineData p \<noteq> None) ps of
                  None \<Rightarrow> None
                | Some p \<Rightarrow> part_inlineData p)))"

definition data_url :: "string \<Rightarrow> string \<Rightarrow> string" where
  \<comment> \<open>\<^verbatim>\<open>`data:${mimeType};base64,${base64Data}`\<close>\<close>
  "data_url mimeType base64Data = ''data:'' @ mimeType @ '';base64,'' @ base64Data"

definition or_else :: "string option \<Rightarrow> string \<Rightarrow> string" where
  \<comment> \<open>\<^verbatim>\<open>s || d\<close>\<close>
  "or_else s d = (case s of None \<Rightarrow> d | Some t \<Rightarrow> if t = [] then d else t)"

definition result_image :: "json_body \<Rightarrow> string option" where
  \<comment> \<open>the data URL built from a parsed body when \<^verbatim>\<open>base64Data\<close> is truthy, else \<open>None\<close>\<close>
  "result_image b =
     (let inl = found_inlineData (first_candidate b);
          base64Data = (case inl of None \<Rightarrow> None | Some d \<Rightarrow> inline_data d);
          mimeType = or_else (case inl of None \<Rightarrow> None | Some d \<Rightarrow> inline_mimeType d) ''image/png''
      in if truthy base64Data
         then (case base64Data of None \<Rightarrow> None | Some dat \<Rightarrow> Some (data_url mimeType dat))
         else None)"

definition result_finishReason :: "json_body \<Rightarrow> string option" where
  \<comment> \<open>\<^verbatim>\<open>candidate?.finishReason\<close>\<close>
  "result_finishReason b =
     (case first_candidate b of None \<Rightarrow> None | Some cd \<Rightarrow> finishReason cd)"

text \<open>
  \<^verbatim>\<open>String.prototype.trim\<close> strips the code units of ECMAScript's WhiteSpace and
  LineTerminator from both ends: tab, LF, VT, FF, CR, space, the no-break space U+00A0,
  U+1680, U+2000 to U+200A, the line and paragraph separators U+2028 and U+2029, U+202F,
  U+205F, U+3000 and the byte order mark U+FEFF.
\<close>

definition js_whitespace :: "code_unit \<Rightarrow> bool" where
  "js_whitespace c =
     (c \<in> {0x0009, 0x000A, 0x000B, 0x000C, 0x000D, 0x0020, 0x00A0, 0x1680,
            0x2028, 0x2029, 0x202F, 0x205F, 0x3000, 0xFEFF}
      \<or> (0x2000 \<le> c \<and> c \<le> 0x200A))"

definition trim :: "code_unit list \<Rightarrow> code_unit list" where
  "trim s = rev (dropWhile js_whitespace (rev (dropWhile js_whitespace s)))"

definition settle :: "attempt_outcome \<Rightarrow> session \<Rightarrow> session" where
  \<comment> \<open>what the attempt leaves behind: a pushed and published image, or nothing but a log line\<close>
  "settle out s =
     (case out of
        Produced url \<Rightarrow>
          (let imgs = newGeneratedImages s @ [url]
           in s\<lparr>newGeneratedImages := imgs,
                attemptLog := attemptLog s @ [(attemptCount s, out)],
                view := (view s)\<lparr>generatedImages := imgs\<rparr>\<rparr>)
      | other \<Rightarrow> s\<lparr>attemptLog := attemptLog s @ [(attemptCount s, out)]\<rparr>)"

definition attempt_outcome_of :: "js_error + response option \<Rightarrow> attempt_outcome" where
  \<comment> \<open>the inner \<^verbatim>\<open>try\<close>/\<^verbatim>\<open>catch\<close> of \<^verbatim>\<open>ImageStudio.jsx\<close>, from what \<^verbatim>\<open>fetchWithRetry\<close> settled to\<close>
  "attempt_outcome_of r =
     (case r of
        Inl apiError \<Rightarrow> Failed apiError
      | Inr None \<Rightarrow> Failed TypeError
      | Inr (Some resp) \<Rightarrow>
          (case body_json resp of
             JsonRejects \<Rightarrow> Failed BodyError
           | b \<Rightarrow> (case result_image b of
                     Some url \<Rightarrow> Produced url
                   | None \<Rightarrow> NoImage (result_finishReason b))))"

definition make_payload :: "string \<Rightarrow> nat \<Rightarrow> nat option \<Rightarrow> string \<Rightarrow> string option \<Rightarrow> payload" where
  "make_payload base n a ftype b64 =
     \<lparr>query_base = base, query_variation = n, query_attempt = a,
      inline_type = ftype, inline_base64 = b64\<rparr>"

definition loop_body :: "env \<Rightarrow> string \<Rightarrow> string \<Rightarrow> string option \<Rightarrow> nat \<Rightarrow> session \<Rightarrow> session" where
  \<comment> \<open>the body of the \<^verbatim>\<open>for\<close> loop of \<^verbatim>\<open>ImageStudio.jsx\<close> at counter \<open>i\<close>\<close>
  "loop_body e base ftype b64 i s =
     (let s1 = s\<lparr>attemptCount := Suc (attemptCount s)\<rparr>;
          currentImageNumber = i + 1;
          s2 = s1\<lparr>view := (view s1)\<lparr>currentGeneratingIndex := currentImageNumber\<rparr>\<rparr>;
          s3 = (if i > 0 then s2\<lparr>outside := setTimeout 2000 (outside s2)\<rparr> else s2);
          pl = make_payload base currentImageNumber None ftype b64
      in case fetchWithRetry e pl MAX_RETRIES (outside s3) of
           (r, w) \<Rightarrow> settle (attempt_outcome_of r) (s3\<lparr>outside := w\<rparr>))"

function generate_loop ::
  "env \<Rightarrow> string \<Rightarrow> string \<Rightarrow> string option \<Rightarrow> int \<Rightarrow> nat \<Rightarrow> session \<Rightarrow> session" where
  "generate_loop e base ftype b64 totalVariations i s =
     (if int i < totalVariations \<and> int (attemptCount s) < totalVariations * 2
      then generate_loop e base ftype b64 totalVariations (Suc i) (loop_body e base ftype b64 i s)
      else s)"
  by pat_completeness auto
termination
  by (relation "measure (\<lambda>(e, base, ftype, b64, totalVariations, i, s). nat (totalVariations - int i))")
     auto

declare generate_loop.simps [simp del]

definition finally_block :: "session \<Rightarrow> session" where
  "finally_block s = s\<lparr>view := (view s)\<lparr>loading := False, currentGeneratingIndex := 0\<rparr>\<rparr>"

definition reset :: "ui \<Rightarrow> ui" where
  \<comment> \<open>the setters between the validation and the \<^verbatim>\<open>try\<close>\<close>
  "reset v = v\<lparr>loading := True, error := None, successMessage := None, generatedImages := [],
               currentImageIndex := 0, currentGeneratingIndex := 0\<rparr>"

definition start :: "ui \<Rightarrow> world \<Rightarrow> session" where
  "start v w = \<lparr>newGeneratedImages = [], attemptCount = 0, attemptLog = [], view = v, outside = w\<rparr>"

definition handleGenerate :: "env \<Rightarrow> inputs \<Rightarrow> ui \<Rightarrow> world \<Rightarrow> session" where
  "handleGenerate e inp v w =
     (case referenceImage inp of
        None \<Rightarrow> start (v\<lparr>error := Some NoReferenceImage\<rparr>) w
      | Some f \<Rightarrow>
          if mode inp = Generate \<and> trim (prompt inp) = []
          then start (v\<lparr>error := Some NoPrompt\<rparr>) w
          else
            (let totalVariations = min (candidateCount inp) 3
             in finally_block
                  (case fileToBase64 e f w of
                     (Inl err, w1) \<Rightarrow> start ((reset v)\<lparr>error := Some (VercelError err)\<rparr>) w1
                   | (Inr base64ImageData, w1) \<Rightarrow>
                       (let s = generate_loop e (optimizedPrompt inp) (file_type f) base64ImageData
                                  totalVariations 0 (start (reset v) w1)
                        in if length (newGeneratedImages s) > 0
                           then s\<lparr>view := (view s)\<lparr>successMessage :=
                                                      Some (Generated (length (newGeneratedImages s))),
                                                    currentImageIndex := 0\<rparr>\<rparr>
                           else s\<lparr>view := (view s)\<lparr>error := Some NothingGenerated\<rparr>\<rparr>))))"

text \<open>
  \<^verbatim>\<open>handleGenerate\<close> of \<^verbatim>\<open>part_001\<close>. There is no \<^verbatim>\<open>try\<close> around the attempt: an exception
  leaves the \<^verbatim>\<open>while\<close> loop and reaches the \<^verbatim>\<open>catch\<close> of the whole function. The two
  checks at the top leave no mode in which the reference image is missing; the branch
  for it below (a read of \<^verbatim>\<open>null\<close>) is there for the \<^verbatim>\<open>case\<close> to be total.
\<close>

definition attempt_outcome_of_part001 :: "js_error + response option \<Rightarrow> attempt_outcome" where
  \<comment> \<open>the chain on \<^verbatim>\<open>finishReason\<close> only picks the text of the warning, but its last test reads
      \<^verbatim>\<open>result.error\<close>, which throws when \<^verbatim>\<open>result\<close> is \<^verbatim>\<open>null\<close>\<close>
  "attempt_outcome_of_part001 r =
     (case r of
        Inl err \<Rightarrow> Failed err
      | Inr None \<Rightarrow> Failed TypeError
      | Inr (Some resp) \<Rightarrow>
          (case body_json resp of
             JsonRejects \<Rightarrow> Failed BodyError
           | b \<Rightarrow> (case result_image b of
                     Some url \<Rightarrow> Produced url
                   | None \<Rightarrow>
                       (let fr = result_finishReason b
                        in if fr = Some ''SAFETY'' then NoImage fr
                           else if fr = Some ''NO_IMAGE'' then NoImage fr
                           else if fr = Some ''IMAGE_RECITATION'' then NoImage fr
                           else if b = JsonNull then Failed TypeError
                           else NoImage fr))))"

definition settle_part001 :: "attempt_outcome \<Rightarrow> session \<Rightarrow> js_error option \<times> session" where
  \<comment> \<open>the first component is the exception that leaves the loop, if any\<close>
  "settle_part001 out s =
     (case out of
        Produced url \<Rightarrow>
          (let imgs = newGeneratedImages s @ [url]
           in (None, s\<lparr>newGeneratedImages := imgs,
                       attemptLog := attemptLog s @ [(attemptCount s, out)],
                       view := (view s)\<lparr>generatedImages := imgs,
                                        currentImageIndex := length imgs - 1\<rparr>\<rparr>))
      | NoImage fr \<Rightarrow> (None, s\<lparr>attemptLog := attemptLog s @ [(attemptCount s, out)]\<rparr>)
      | Failed err \<Rightarrow> (Some err, s\<lparr>attemptLog := attemptLog s @ [(attemptCount s, out)]\<rparr>))"

definition loop_body_part001 ::
  "env \<Rightarrow> string \<Rightarrow> string \<Rightarrow> string option \<Rightarrow> session \<Rightarrow> js_error option \<times> session" where
  \<comment> \<open>the body of the \<^verbatim>\<open>while\<close> loop; the wrapper is called with its default of 3 retries\<close>
  "loop_body_part001 e base ftype b64 s =
     (let s1 = s\<lparr>attemptCount := Suc (attemptCount s)\<rparr>;
          currentImageNumber = length (newGeneratedImages s1) + 1;
          s2 = s1\<lparr>view := (view s1)\<lparr>currentGeneratingIndex := currentImageNumber\<rparr>\<rparr>;
          pl = make_payload base currentImageNumber (Some (attemptCount s2)) ftype b64
      in case fetchWithRetry_part001 e pl 3 (outside s2) of
           (r, w) \<Rightarrow> settle_part001 (attempt_outcome_of_part001 r) (s2\<lparr>outside := w\<rparr>))"

function generate_loop_part001 ::
  "env \<Rightarrow> string \<Rightarrow> string \<Rightarrow> string option \<Rightarrow> int \<Rightarrow> session \<Rightarrow> js_error option \<times> session" where
  "generate_loop_part001 e base ftype b64 totalVariations s =
     (if int (length (newGeneratedImages s)) < totalVariations
         \<and> int (attemptCount s) < totalVariations * 2
      then (case loop_body_part001 e base ftype b64 s of
              (Some err, s1) \<Rightarrow> (Some err, s1)
            | (None, s1) \<Rightarrow> generate_loop_part001 e base ftype b64 totalVariations s1)
      else (None, s))"
  by pat_completeness auto
termination
  by (relation "measure (\<lambda>(e, base, ftype, b64, totalVariations, s).
                   nat (totalVariations * 2 - int (attemptCount s)))")
     (auto simp: loop_body_part001_def settle_part001_def Let_def
           split: prod.splits attempt_outcome.splits)

declare generate_loop_part001.simps [simp del]

definition handleGenerate_part001 :: "env \<Rightarrow> inputs \<Rightarrow> ui \<Rightarrow> world \<Rightarrow> session" where
  "handleGenerate_part001 e inp v w =
     (if mode inp = Generate \<and> (prompt inp = [] \<or> referenceImage inp = None)
      then start (v\<lparr>error := Some NoPromptOrImage, successMessage := None\<rparr>) w
      else if mode inp = Restore \<and> referenceImage inp = None
      then start (v\<lparr>error := Some NoPhoto, successMessage := None\<rparr>) w
      else
        (case referenceImage inp of
           None \<Rightarrow> finally_block (start ((reset v)\<lparr>error := Some (Critical TypeError)\<rparr>) w)
         | Some f \<Rightarrow>
             (let totalVariations = candidateCount inp
              in finally_block
                   (case fileToBase64_part001 e f w of
                      (Inl err, w1) \<Rightarrow> start ((reset v)\<lparr>error := Some (Critical err)\<rparr>) w1
                    | (Inr base64ImageData, w1) \<Rightarrow>
                        (case generate_loop_part001 e (optimizedPrompt inp) (file_type f)
                                base64ImageData totalVariations (start (reset v) w1) of
                           (Some err, s) \<Rightarrow> s\<lparr>view := (view s)\<lparr>error := Some (Critical err)\<rparr>\<rparr>
                         | (None, s) \<Rightarrow> s\<lparr>view := (view s)\<lparr>successMessage := None\<rparr>\<rparr>)))))"

subsection \<open>What the properties speak about\<close>

fun produced :: "(nat \<times> attempt_outcome) list \<Rightarrow> string list" where
  \<comment> \<open>the images of the attempts that produced one, in the order of the log\<close>
  "produced [] = []"
| "produced ((n, Produced url) # rest) = url # produced rest"
| "produced ((n, NoImage fr) # rest) = produced rest"
| "produced ((n, Failed err) # rest) = produced rest"

definition carries :: "string \<Rightarrow> string option \<Rightarrow> event \<Rightarrow> bool" where
  \<comment> \<open>an effect of the attempt loop: a wait, or a request with the given image data; no read\<close>
  "carries ftype b64 ev =
     (case ev of
        EvFetch pl \<Rightarrow> inline_type pl = ftype \<and> inline_base64 pl = b64
      | EvSleep d \<Rightarrow> True
      | EvRead f \<Rightarrow> False)"

definition before :: "nat \<Rightarrow> session \<Rightarrow> world" where
  \<comment> \<open>the world in which pass \<open>i\<close> of the \<^verbatim>\<open>for\<close> loop calls the wrapper\<close>
  "before i s = (if 0 < i then setTimeout 2000 (outside s) else outside s)"

definition consistent :: "session \<Rightarrow> bool" where
  \<comment> \<open>the log has one entry per attempt, numbered from 1, and the images are its successes\<close>
  "consistent s =
     (length (attemptLog s) = attemptCount s
      \<and> map fst (attemptLog s) = [1..<Suc (attemptCount s)]
      \<and> newGeneratedImages s = produced (attemptLog s))"

definition extends :: "string \<Rightarrow> string option \<Rightarrow> world \<Rightarrow> world \<Rightarrow> bool" where
  \<comment> \<open>\<open>w'\<close> is \<open>w\<close> after some waits and requests with the given image data, and no read\<close>
  "extends ftype b64 w w' =
     (take (length (trace w)) (trace w') = trace w
      \<and> list_all (carries ftype b64) (drop (length (trace w)) (trace w'))
      \<and> nread w' = nread w)"

subsection \<open>Concrete environments and inputs\<close>

text \<open>The inputs at which the theorems below are instantiated.\<close>

definition script :: "'a list \<Rightarrow> 'a \<Rightarrow> nat \<Rightarrow> 'a" where
  \<comment> \<open>the answers \<open>xs\<close> in turn, and \<open>d\<close> from then on\<close>
  "script xs d k = (if k < length xs then xs ! k else d)"

definition reply :: "nat \<Rightarrow> json_body \<Rightarrow> response" where
  "reply n b = \<lparr>status = n, body_text = Inr ''body'', body_json = b\<rparr>"

definition image_body :: json_body where
  "image_body =
     JsonValue (GenResult [Candidate (Some ''STOP'')
                  (Some [Part None, Part (Some (InlineData (Some ''QUJD'') None))])] None)"

definition no_image_body :: json_body where
  "no_image_body = JsonValue (GenResult [Candidate (Some ''NO_IMAGE'') None] None)"

definition scripted :: "fetch_result list \<Rightarrow> env" where
  \<comment> \<open>a \<^verbatim>\<open>fetch\<close> beyond the script rejects; every random number is 1/2; every read loads\<close>
  "scripted xs =
     \<lparr>fetch_outcome = script xs (Rejected NetworkError),
      random_outcome = (\<lambda>k. 1 / 2),
      read_outcome = (\<lambda>k. True)\<rparr>"

definition idle_world :: world where
  "idle_world = \<lparr>trace = [], nfetch = 0, nrandom = 0, nread = 0\<rparr>"

definition request0 :: payload where
  "request0 = make_payload ''golden armor'' 1 None ''image/png'' (Some ''QUJD'')"

definition blank_ui :: ui where
  "blank_ui =
     \<lparr>generatedImages = [], error = None, successMessage = None, loading = False,
      currentImageIndex = 0, currentGeneratingIndex = 0\<rparr>"

definition photo :: image_file where
  "photo =
     \<lparr>file_size = 3, file_type = ''image/png'', file_dataURL = ''data:image/png;base64,QUJD''\<rparr>"

definition scan :: image_file where
  \<comment> \<open>a file of exactly 4 MiB\<close>
  "scan =
     \<lparr>file_size = 4194304, file_type = ''image/png'',
      file_dataURL = ''data:image/png;base64,QUJD''\<rparr>"

definition poster :: image_file where
  \<comment> \<open>a file of one byte more\<close>
  "poster =
     \<lparr>file_size = 4194305, file_type = ''image/png'',
      file_dataURL = ''data:image/png;base64,QUJD''\<rparr>"

definition golden_armor :: "int \<Rightarrow> inputs" where
  \<comment> \<open>the prompt is "golden armor" in code units\<close>
  "golden_armor n =
     \<lparr>mode = Generate,
      prompt = [0x67, 0x6F, 0x6C, 0x64, 0x65, 0x6E, 0x20, 0x61, 0x72, 0x6D, 0x6F, 0x72],
      referenceImage = Some photo,
      optimizedPrompt = ''golden armor, 8k'', candidateCount = n\<rparr>"

definition blank_prompt :: "int \<Rightarrow> inputs" where
  \<comment> \<open>the prompt is a space, a no-break space and an ideographic space\<close>
  "blank_prompt n =
     \<lparr>mode = Generate, prompt = [0x0020, 0x00A0, 0x3000], referenceImage = Some photo,
      optimizedPrompt = ''N/A'', candidateCount = n\<rparr>"

definition two_misses :: env where
  \<comment> \<open>two answers without an image, then one with an image, then no network\<close>
  "two_misses =
     scripted [Responded (reply 200 no_image_body), Responded (reply 200 no_image_body),
               Responded (reply 200 image_body)]"

definition unreadable :: env where
  \<comment> \<open>every read fires \<^verbatim>\<open>onerror\<close>\<close>
  "unreadable =
     \<lparr>fetch_outcome = script [] (Rejected NetworkError),
      random_outcome = (\<lambda>k. 1 / 2),
      read_outcome = (\<lambda>k. False)\<rparr>"

definition outage :: env where
  \<comment> \<open>three requests without an answer, then answers with an image\<close>
  "outage =
     scripted [Rejected NetworkError, Rejected NetworkError, Rejected NetworkError,
               Responded (reply 200 image_body), Responded (reply 200 image_body),
               Responded (reply 200 image_body)]"

definition safety_body :: json_body where
  "safety_body = JsonValue (GenResult [Candidate (Some ''SAFETY'') None] None)"

definition blocked :: env where
  \<comment> \<open>six answers that a safety filter has blocked\<close>
  "blocked =
     scripted [Responded (reply 200 safety_body), Responded (reply 200 safety_body),
               Responded (reply 200 safety_body), Responded (reply 200 safety_body),
               Responded (reply 200 safety_body), Responded (reply 200 safety_body)]"

definition recovering :: env where
  \<comment> \<open>two answers without an image, then three with an image\<close>
  "recovering =
     scripted [Responded (reply 200 no_image_body), Responded (reply 200 no_image_body),
               Responded (reply 200 image_body), Responded (reply 200 image_body),
               Responded (reply 200 image_body)]"

section \<open>Properties\<close>

text \<open>The equations that evaluate a run on concrete inputs.\<close>

lemmas wrapper_defs = fetchWithRetry_def fetchWithRetry_from.simps iteration_def try_block_def
  catch_block_def fetch_def sent_def drawn_def Math_random_def setTimeout_def ok_def
  MAX_RETRIES_def

lemmas wrapper_part001_defs = fetchWithRetry_part001_def fetchWithRetry_from_part001.simps
  iteration_part001_def try_block_part001_def catch_block_part001_def fetch_def sent_def
  drawn_def Math_random_def setTimeout_def ok_def

lemmas encode_defs = fileToBase64_def fileToBase64_part001_def readAsDataURL_def started_def
  index_def MAX_IMAGE_SIZE_def

lemmas classify_defs = attempt_outcome_of_def attempt_outcome_of_part001_def result_image_def
  result_finishReason_def first_candidate_def found_inlineData_def truthy_def or_else_def
  data_url_def

lemmas session_defs = handleGenerate_def generate_loop.simps loop_body_def settle_def
  make_payload_def start_def reset_def finally_block_def trim_def js_whitespace_def Let_def

lemmas session_part001_defs = handleGenerate_part001_def generate_loop_part001.simps
  loop_body_part001_def settle_part001_def make_payload_def start_def reset_def
  finally_block_def Let_def

lemmas scenario_defs = scripted_def script_def reply_def image_body_def no_image_body_def
  idle_world_def blank_ui_def photo_def golden_armor_def two_misses_def outage_def
  safety_body_def blocked_def recovering_def

subsection \<open>One pass of the wrapper's loop\<close>

lemma try_block_413:
  assumes "fetch_outcome e (nfetch w) = Responded r" and "status r = 413"
  shows "try_block e rq retries i w =
           (Throw FUNCTION_PAYLOAD_TOO_LARGE,
            sent rq w)"
  using assms by (simp add: try_block_def fetch_def)

lemma try_block_504:
  assumes "fetch_outcome e (nfetch w) = Responded r" and "status r = 504"
  shows "try_block e rq retries i w =
           (Throw FUNCTION_INVOCATION_TIMEOUT,
            sent rq w)"
  using assms by (simp add: try_block_def fetch_def)

lemma iteration_thrown:
  assumes "try_block e rq retries i w = (Throw err, w1)"
  shows "iteration e rq retries i w =
           (if Suc i = retries then (Throw err, w1)
            else (Continue, setTimeout (2 ^ i * 1000) w1))"
  using assms by (simp add: iteration_def catch_block_def)

lemma from_thrown:
  assumes "try_block e rq retries i w = (Throw err, w1)" and "i < retries"
  shows "fetchWithRetry_from e rq retries i w =
           (if Suc i = retries then (Inl err, w1)
            else fetchWithRetry_from e rq retries (Suc i)
                   (setTimeout (2 ^ i * 1000) w1))"
  using assms by (simp add: fetchWithRetry_from.simps[of e rq retries i w] iteration_thrown)

lemma iteration_nfetch: "nfetch (snd (iteration e rq retries i w)) = Suc (nfetch w)"
  by (simp add: iteration_def try_block_def catch_block_def fetch_def Math_random_def
        setTimeout_def sent_def drawn_def
      split: fetch_result.splits sum.splits prod.splits completion.splits)

lemma from_nfetch:
  "i < retries \<Longrightarrow> Suc (nfetch w) \<le> nfetch (snd (fetchWithRetry_from e rq retries i w))"
proof (induction e rq retries i w rule: fetchWithRetry_from.induct)
  case (1 e rq retries i w)
  obtain c w1 where it: "iteration e rq retries i w = (c, w1)"
    by (cases "iteration e rq retries i w")
  have n1: "nfetch w1 = Suc (nfetch w)"
    using iteration_nfetch[of e rq retries i w] it by simp
  show ?case
  proof (cases c)
    case (Return r)
    then show ?thesis
      using 1 it n1 by (simp add: fetchWithRetry_from.simps[of e rq retries i w])
  next
    case Continue
    show ?thesis
    proof (cases "Suc i < retries")
      case True
      then show ?thesis
        using 1 it n1 Continue by (simp add: fetchWithRetry_from.simps[of e rq retries i w])
    next
      case False
      then show ?thesis
        using 1 it n1 Continue
        by (simp add: fetchWithRetry_from.simps[of e rq retries i w]
              fetchWithRetry_from.simps[of e rq retries "Suc i"])
    qed
  next
    case (Throw err)
    then show ?thesis
      using 1 it n1 by (simp add: fetchWithRetry_from.simps[of e rq retries i w])
  qed
qed

lemma try_block_part001_not_ok:
  assumes "fetch_outcome e (nfetch w) = Responded r" and "\<not> ok r" and "status r \<noteq> 429"
  shows "try_block_part001 e rq retries i w =
           (Throw (case body_text r of Inl err \<Rightarrow> err | Inr errorBody \<Rightarrow> ApiError (status r) errorBody),
            sent rq w)"
  using assms by (simp add: try_block_part001_def fetch_def split: sum.splits)

lemma from_part001_thrown:
  assumes "try_block_part001 e rq retries i w = (Throw err, w1)" and "i < retries"
  shows "fetchWithRetry_from_part001 e rq retries i w =
           (if Suc i = retries then (Inl err, w1)
            else fetchWithRetry_from_part001 e rq retries (Suc i) w1)"
  using assms
  by (simp add: fetchWithRetry_from_part001.simps[of e rq retries i w] iteration_part001_def
        catch_block_part001_def)

lemma iteration_part001_nfetch:
  "nfetch (snd (iteration_part001 e rq retries i w)) = Suc (nfetch w)"
  by (simp add: iteration_part001_def try_block_part001_def catch_block_part001_def fetch_def
        Math_random_def setTimeout_def sent_def drawn_def
      split: fetch_result.splits sum.splits prod.splits completion.splits)

lemma from_part001_nfetch:
  "i < retries \<Longrightarrow>
     Suc (nfetch w) \<le> nfetch (snd (fetchWithRetry_from_part001 e rq retries i w))"
proof (induction e rq retries i w rule: fetchWithRetry_from_part001.induct)
  case (1 e rq retries i w)
  obtain c w1 where it: "iteration_part001 e rq retries i w = (c, w1)"
    by (cases "iteration_part001 e rq retries i w")
  have n1: "nfetch w1 = Suc (nfetch w)"
    using iteration_part001_nfetch[of e rq retries i w] it by simp
  show ?case
  proof (cases c)
    case (Return r)
    then show ?thesis
      using 1 it n1 by (simp add: fetchWithRetry_from_part001.simps[of e rq retries i w])
  next
    case Continue
    show ?thesis
    proof (cases "Suc i < retries")
      case True
      then show ?thesis
        using 1 it n1 Continue
        by (simp add: fetchWithRetry_from_part001.simps[of e rq retries i w])
    next
      case False
      then show ?thesis
        using 1 it n1 Continue
        by (simp add: fetchWithRetry_from_part001.simps[of e rq retries i w]
              fetchWithRetry_from_part001.simps[of e rq retries "Suc i"])
    qed
  next
    case (Throw err)
    then show ?thesis
      using 1 it n1 by (simp add: fetchWithRetry_from_part001.simps[of e rq retries i w])
  qed
qed

subsection \<open>Status 413\<close>

text \<open>
  Claim C2, as amended. When the first attempt of a call receives status 413, the wrapper
  fails at once with \<open>FUNCTION_PAYLOAD_TOO_LARGE\<close>, after that one request, only if the
  budget is a single attempt. With a larger budget (the default is 3) the exception is
  thrown inside the \<^verbatim>\<open>try\<close> block and caught by the wrapper's own \<^verbatim>\<open>catch\<close> block, which waits
  1000 ms and lets the loop go on: the call continues as from attempt 1 and issues at
  least a second request.
\<close>

theorem fetchWithRetry_413:
  assumes "fetch_outcome e (nfetch w) = Responded r" and "status r = 413"
  shows "(retries = 1 \<longrightarrow>
            fetchWithRetry e rq retries w =
              (Inl FUNCTION_PAYLOAD_TOO_LARGE,
               sent rq w))
       \<and> (1 < retries \<longrightarrow>
            fetchWithRetry e rq retries w =
              fetchWithRetry_from e rq retries 1
                (setTimeout 1000 (sent rq w))
          \<and> nfetch w + 2 \<le> nfetch (snd (fetchWithRetry e rq retries w)))"
proof (intro conjI impI)
  assume "retries = 1"
  then show "fetchWithRetry e rq retries w =
      (Inl FUNCTION_PAYLOAD_TOO_LARGE,
       sent rq w)"
    using from_thrown[OF try_block_413[OF assms], of 0 retries rq]
    by (simp add: fetchWithRetry_def)
next
  assume more: "1 < retries"
  then show step: "fetchWithRetry e rq retries w =
      fetchWithRetry_from e rq retries 1
        (setTimeout 1000 (sent rq w))"
    using from_thrown[OF try_block_413[OF assms], of 0 retries rq]
    by (simp add: fetchWithRetry_def)
  show "nfetch w + 2 \<le> nfetch (snd (fetchWithRetry e rq retries w))"
    using from_nfetch[OF more, of "setTimeout 1000 (sent rq w)" e rq]
    by (simp add: step setTimeout_def sent_def)
qed

text \<open>
  The theorem at a 413 followed by a 200, with a budget of 3 and with a budget of 1.
\<close>

theorem fetchWithRetry_413_witness:
  "fetch_outcome (scripted [Responded (reply 413 JsonNull), Responded (reply 200 image_body)])
       (nfetch idle_world)
     = Responded (reply 413 JsonNull)
   \<and> status (reply 413 JsonNull) = 413
   \<and> fetchWithRetry (scripted [Responded (reply 413 JsonNull), Responded (reply 200 image_body)])
         request0 3 idle_world
     = fetchWithRetry_from
         (scripted [Responded (reply 413 JsonNull), Responded (reply 200 image_body)])
         request0 3 1 (setTimeout 1000 (sent request0 idle_world))
   \<and> nfetch idle_world + 2
       \<le> nfetch (snd (fetchWithRetry
                        (scripted [Responded (reply 413 JsonNull), Responded (reply 200 image_body)])
                        request0 3 idle_world))
   \<and> fetchWithRetry (scripted [Responded (reply 413 JsonNull), Responded (reply 200 image_body)])
         request0 1 idle_world
     = (Inl FUNCTION_PAYLOAD_TOO_LARGE, sent request0 idle_world)"
proof -
  let ?e = "scripted [Responded (reply 413 JsonNull), Responded (reply 200 image_body)]"
  have h: "fetch_outcome ?e (nfetch idle_world) = Responded (reply 413 JsonNull)"
    by (simp add: scripted_def script_def idle_world_def)
  have s: "status (reply 413 JsonNull) = 413"
    by (simp add: reply_def)
  have many: "(1::nat) < 3" and one: "(1::nat) = 1"
    by simp_all
  note later = fetchWithRetry_413[OF h s, of 3 request0, THEN conjunct2, THEN mp, OF many]
  note last = fetchWithRetry_413[OF h s, of 1 request0, THEN conjunct1, THEN mp, OF one]
  from h s later last show ?thesis
    by blast
qed

text \<open>
  The claim as first stated fails: with the default budget, a 413 on the first attempt is
  followed by a wait of 1000 ms and a second request, whose response is returned.
\<close>

theorem fetchWithRetry_413_counterexample:
  "fetch_outcome (scripted [Responded (reply 413 JsonNull), Responded (reply 200 image_body)]) 0
     = Responded (reply 413 JsonNull)
   \<and> status (reply 413 JsonNull) = 413
   \<and> fetchWithRetry (scripted [Responded (reply 413 JsonNull), Responded (reply 200 image_body)])
         request0 MAX_RETRIES idle_world
     = (Inr (Some (reply 200 image_body)),
        \<lparr>trace = [EvFetch request0, EvSleep 1000, EvFetch request0],
         nfetch = 2, nrandom = 0, nread = 0\<rparr>)"
  by (simp add: fetchWithRetry_def fetchWithRetry_from.simps iteration_def try_block_def
        catch_block_def fetch_def sent_def scripted_def script_def reply_def idle_world_def
        setTimeout_def ok_def MAX_RETRIES_def)

subsection \<open>Status 429\<close>

lemma try_block_429:
  assumes "fetch_outcome e (nfetch w) = Responded r" and "status r = 429" and "Suc i < retries"
  shows "try_block e rq retries i w =
           (Continue, setTimeout (2 ^ i * 1000 + random_outcome e (nrandom w) * 1000)
                        (drawn (sent rq w)))"
  using assms by (simp add: try_block_def fetch_def Math_random_def sent_def)

lemma try_block_200:
  assumes "fetch_outcome e (nfetch w) = Responded r" and "status r = 200"
  shows "try_block e rq retries i w = (Return r, sent rq w)"
  using assms by (simp add: try_block_def fetch_def ok_def)

lemma try_block_429_last:
  assumes "fetch_outcome e (nfetch w) = Responded r" and "status r = 429" and "Suc i = retries"
  shows "try_block e rq retries i w =
           (Throw (case body_text r of Inl err \<Rightarrow> err | Inr errorBody \<Rightarrow> ApiError 429 errorBody),
            sent rq w)"
  using assms by (auto simp add: try_block_def fetch_def ok_def split: sum.splits)

lemma try_block_part001_429:
  assumes "fetch_outcome e (nfetch w) = Responded r" and "status r = 429" and "Suc i < retries"
  shows "try_block_part001 e rq retries i w =
           (Continue, setTimeout (2 ^ i * 1000 + random_outcome e (nrandom w) * 1000)
                        (drawn (sent rq w)))"
  using assms by (simp add: try_block_part001_def fetch_def Math_random_def sent_def)

lemma try_block_part001_200:
  assumes "fetch_outcome e (nfetch w) = Responded r" and "status r = 200"
  shows "try_block_part001 e rq retries i w = (Return r, sent rq w)"
  using assms by (simp add: try_block_part001_def fetch_def ok_def)

lemma try_block_part001_429_last:
  assumes "fetch_outcome e (nfetch w) = Responded r" and "status r = 429" and "Suc i = retries"
  shows "try_block_part001 e rq retries i w =
           (Throw (case body_text r of Inl err \<Rightarrow> err | Inr errorBody \<Rightarrow> ApiError 429 errorBody),
            sent rq w)"
  using assms by (auto simp add: try_block_part001_def fetch_def ok_def split: sum.splits)

lemma nfetch_after_wait [simp]:
  "nfetch (setTimeout d (drawn (sent rq w))) = Suc (nfetch w)"
  by (simp add: setTimeout_def drawn_def sent_def)

text \<open>
  Claim C3. In both variants of the wrapper: when attempt \<open>i\<close> receives status 429 and is
  not the last allowed attempt, the wrapper draws a random number \<open>x\<close>, waits
  \<open>2 ^ i * 1000 + x * 1000\<close> milliseconds and sends the request again; if that request is
  answered with status 200, the call returns this response and no failure. When attempt
  \<open>i\<close> is the last allowed one, a 429 is not retried: the call fails with the error of a
  response that is not ok, after that one request.
\<close>

theorem fetchWithRetry_429_then_200:
  assumes "fetch_outcome e (nfetch w) = Responded r" and "status r = 429"
  shows "(Suc i < retries \<and> fetch_outcome e (Suc (nfetch w)) = Responded r' \<and> status r' = 200 \<longrightarrow>
            fetchWithRetry_from e rq retries i w =
              (Inr (Some r'),
               sent rq (setTimeout (2 ^ i * 1000 + random_outcome e (nrandom w) * 1000)
                          (drawn (sent rq w))))
          \<and> fetchWithRetry_from_part001 e rq retries i w =
              (Inr (Some r'),
               sent rq (setTimeout (2 ^ i * 1000 + random_outcome e (nrandom w) * 1000)
                          (drawn (sent rq w)))))
       \<and> (Suc i = retries \<longrightarrow>
            fetchWithRetry_from e rq retries i w =
              (Inl (case body_text r of Inl err \<Rightarrow> err | Inr errorBody \<Rightarrow> ApiError 429 errorBody),
               sent rq w)
          \<and> fetchWithRetry_from_part001 e rq retries i w =
              (Inl (case body_text r of Inl err \<Rightarrow> err | Inr errorBody \<Rightarrow> ApiError 429 errorBody),
               sent rq w))"
proof (intro conjI impI)
  assume a: "Suc i < retries \<and> fetch_outcome e (Suc (nfetch w)) = Responded r' \<and> status r' = 200"
  let ?w1 = "setTimeout (2 ^ i * 1000 + random_outcome e (nrandom w) * 1000) (drawn (sent rq w))"
  have next_fetch: "fetch_outcome e (nfetch ?w1) = Responded r'"
    using a by simp
  show "fetchWithRetry_from e rq retries i w = (Inr (Some r'), sent rq ?w1)"
    using a try_block_429[OF assms, of i retries rq]
      try_block_200[OF next_fetch, of rq retries "Suc i"]
    by (simp add: fetchWithRetry_from.simps[of e rq retries i w]
          fetchWithRetry_from.simps[of e rq retries "Suc i" ?w1] iteration_def)
  show "fetchWithRetry_from_part001 e rq retries i w = (Inr (Some r'), sent rq ?w1)"
    using a try_block_part001_429[OF assms, of i retries rq]
      try_block_part001_200[OF next_fetch, of rq retries "Suc i"]
    by (simp add: fetchWithRetry_from_part001.simps[of e rq retries i w]
          fetchWithRetry_from_part001.simps[of e rq retries "Suc i" ?w1] iteration_part001_def)
next
  assume l: "Suc i = retries"
  then have "i < retries" by simp
  then show "fetchWithRetry_from e rq retries i w =
      (Inl (case body_text r of Inl err \<Rightarrow> err | Inr errorBody \<Rightarrow> ApiError 429 errorBody),
       sent rq w)"
    using l from_thrown[OF try_block_429_last[OF assms l, of rq]] by simp
  from \<open>i < retries\<close> show "fetchWithRetry_from_part001 e rq retries i w =
      (Inl (case body_text r of Inl err \<Rightarrow> err | Inr errorBody \<Rightarrow> ApiError 429 errorBody),
       sent rq w)"
    using l from_part001_thrown[OF try_block_part001_429_last[OF assms l, of rq]] by simp
qed


text \<open>
  The theorem at a 429 followed by a 200: with the default budget the call succeeds after a
  wait of 1500 ms (the random number is 1/2); with a budget of 1 it fails.
\<close>

theorem fetchWithRetry_429_then_200_witness:
  "fetch_outcome (scripted [Responded (reply 429 JsonNull), Responded (reply 200 image_body)])
       (nfetch idle_world)
     = Responded (reply 429 JsonNull)
   \<and> status (reply 429 JsonNull) = 429
   \<and> Suc 0 < MAX_RETRIES
   \<and> fetch_outcome (scripted [Responded (reply 429 JsonNull), Responded (reply 200 image_body)])
       (Suc (nfetch idle_world))
     = Responded (reply 200 image_body)
   \<and> status (reply 200 image_body) = 200
   \<and> fetchWithRetry_from
         (scripted [Responded (reply 429 JsonNull), Responded (reply 200 image_body)])
         request0 MAX_RETRIES 0 idle_world
     = (Inr (Some (reply 200 image_body)),
        \<lparr>trace = [EvFetch request0, EvSleep 1500, EvFetch request0],
         nfetch = 2, nrandom = 1, nread = 0\<rparr>)
   \<and> fetchWithRetry_from_part001
         (scripted [Responded (reply 429 JsonNull), Responded (reply 200 image_body)])
         request0 MAX_RETRIES 0 idle_world
     = (Inr (Some (reply 200 image_body)),
        \<lparr>trace = [EvFetch request0, EvSleep 1500, EvFetch request0],
         nfetch = 2, nrandom = 1, nread = 0\<rparr>)
   \<and> Suc 0 = 1
   \<and> fetchWithRetry_from
         (scripted [Responded (reply 429 JsonNull), Responded (reply 200 image_body)])
         request0 1 0 idle_world
     = (Inl (ApiError 429 ''body''), sent request0 idle_world)
   \<and> fetchWithRetry_from_part001
         (scripted [Responded (reply 429 JsonNull), Responded (reply 200 image_body)])
         request0 1 0 idle_world
     = (Inl (ApiError 429 ''body''), sent request0 idle_world)"
proof -
  let ?e = "scripted [Responded (reply 429 JsonNull), Responded (reply 200 image_body)]"
  have h: "fetch_outcome ?e (nfetch idle_world) = Responded (reply 429 JsonNull)"
    by (simp add: scripted_def script_def idle_world_def)
  have s: "status (reply 429 JsonNull) = 429"
    by (simp add: reply_def)
  have budget: "Suc 0 < MAX_RETRIES"
    by (simp add: MAX_RETRIES_def)
  have h': "fetch_outcome ?e (Suc (nfetch idle_world)) = Responded (reply 200 image_body)"
    by (simp add: scripted_def script_def idle_world_def)
  have s': "status (reply 200 image_body) = 200"
    by (simp add: reply_def)
  have final: "Suc 0 = (1::nat)"
    by simp
  have after: "sent request0
                 (setTimeout (2 ^ 0 * 1000 + random_outcome ?e (nrandom idle_world) * 1000)
                    (drawn (sent request0 idle_world)))
               = \<lparr>trace = [EvFetch request0, EvSleep 1500, EvFetch request0],
                  nfetch = 2, nrandom = 1, nread = 0\<rparr>"
    by (simp add: sent_def setTimeout_def drawn_def idle_world_def scripted_def)
  have body: "(case body_text (reply 429 JsonNull) of Inl err \<Rightarrow> err
               | Inr errorBody \<Rightarrow> ApiError 429 errorBody) = ApiError 429 ''body''"
    by (simp add: reply_def)
  note retried =
    fetchWithRetry_429_then_200[OF h s, of 0 MAX_RETRIES "reply 200 image_body" request0,
      THEN conjunct1, THEN mp, OF conjI[OF budget conjI[OF h' s']], unfolded after]
  note refused =
    fetchWithRetry_429_then_200[OF h s, of 0 1 "reply 200 image_body" request0,
      THEN conjunct2, THEN mp, OF final, unfolded body]
  from h s budget h' s' final retried refused show ?thesis
    by blast
qed

subsection \<open>Status 504\<close>

text \<open>
  Claim C4, as amended. When attempt \<open>i\<close> of a call receives status 504: if it is the last
  allowed attempt, \<^verbatim>\<open>ImageStudio.jsx\<close> fails the call with \<open>FUNCTION_INVOCATION_TIMEOUT\<close> and
  \<^verbatim>\<open>part_001\<close> fails it with the error of a response that is not ok; on an earlier attempt
  both variants catch the exception themselves and send the request again,
  \<^verbatim>\<open>ImageStudio.jsx\<close> after a wait of \<open>2 ^ i * 1000\<close> milliseconds and \<^verbatim>\<open>part_001\<close> at once.
\<close>

theorem fetchWithRetry_504:
  assumes "fetch_outcome e (nfetch w) = Responded r" and "status r = 504" and "i < retries"
  shows "(Suc i = retries \<longrightarrow>
            fetchWithRetry_from e rq retries i w = (Inl FUNCTION_INVOCATION_TIMEOUT, sent rq w)
          \<and> fetchWithRetry_from_part001 e rq retries i w =
              (Inl (case body_text r of Inl err \<Rightarrow> err | Inr errorBody \<Rightarrow> ApiError 504 errorBody),
               sent rq w))
       \<and> (Suc i < retries \<longrightarrow>
            fetchWithRetry_from e rq retries i w =
              fetchWithRetry_from e rq retries (Suc i) (setTimeout (2 ^ i * 1000) (sent rq w))
          \<and> nfetch w + 2 \<le> nfetch (snd (fetchWithRetry_from e rq retries i w))
          \<and> fetchWithRetry_from_part001 e rq retries i w =
              fetchWithRetry_from_part001 e rq retries (Suc i) (sent rq w)
          \<and> nfetch w + 2 \<le> nfetch (snd (fetchWithRetry_from_part001 e rq retries i w)))"
proof -
  have not_ok: "\<not> ok r" and not_429: "status r \<noteq> 429"
    using assms(2) by (simp_all add: ok_def)
  note new = from_thrown[OF try_block_504[OF assms(1,2)] assms(3), of rq]
  note old = from_part001_thrown[OF try_block_part001_not_ok[OF assms(1) not_ok not_429] assms(3),
               of rq]
  show ?thesis
  proof (intro conjI impI)
    assume "Suc i = retries"
    then show "fetchWithRetry_from e rq retries i w = (Inl FUNCTION_INVOCATION_TIMEOUT, sent rq w)"
      using new by simp
    from \<open>Suc i = retries\<close>
    show "fetchWithRetry_from_part001 e rq retries i w =
        (Inl (case body_text r of Inl err \<Rightarrow> err | Inr errorBody \<Rightarrow> ApiError 504 errorBody),
         sent rq w)"
      using old assms(2) by (simp split: sum.splits)
  next
    assume more: "Suc i < retries"
    then show step: "fetchWithRetry_from e rq retries i w =
        fetchWithRetry_from e rq retries (Suc i) (setTimeout (2 ^ i * 1000) (sent rq w))"
      using new by simp
    show "nfetch w + 2 \<le> nfetch (snd (fetchWithRetry_from e rq retries i w))"
      using from_nfetch[OF more, of "setTimeout (2 ^ i * 1000) (sent rq w)" e rq]
      by (simp add: step setTimeout_def sent_def)
    from more show step': "fetchWithRetry_from_part001 e rq retries i w =
        fetchWithRetry_from_part001 e rq retries (Suc i) (sent rq w)"
      using old by simp
    show "nfetch w + 2 \<le> nfetch (snd (fetchWithRetry_from_part001 e rq retries i w))"
      using from_part001_nfetch[OF more, of "sent rq w" e rq]
      by (simp add: step' sent_def)
  qed
qed

text \<open>
  The theorem at a 504 followed by a 200, with the default budget and with a budget of 1.
\<close>

theorem fetchWithRetry_504_witness:
  "fetch_outcome (scripted [Responded (reply 504 JsonNull), Responded (reply 200 image_body)])
       (nfetch idle_world)
     = Responded (reply 504 JsonNull)
   \<and> status (reply 504 JsonNull) = 504
   \<and> 0 < MAX_RETRIES
   \<and> Suc 0 < MAX_RETRIES
   \<and> fetchWithRetry_from
         (scripted [Responded (reply 504 JsonNull), Responded (reply 200 image_body)])
         request0 MAX_RETRIES 0 idle_world
     = fetchWithRetry_from
         (scripted [Responded (reply 504 JsonNull), Responded (reply 200 image_body)])
         request0 MAX_RETRIES (Suc 0) (setTimeout (2 ^ 0 * 1000) (sent request0 idle_world))
   \<and> nfetch idle_world + 2
       \<le> nfetch (snd (fetchWithRetry_from
                        (scripted [Responded (reply 504 JsonNull), Responded (reply 200 image_body)])
                        request0 MAX_RETRIES 0 idle_world))
   \<and> fetchWithRetry_from_part001
         (scripted [Responded (reply 504 JsonNull), Responded (reply 200 image_body)])
         request0 MAX_RETRIES 0 idle_world
     = fetchWithRetry_from_part001
         (scripted [Responded (reply 504 JsonNull), Responded (reply 200 image_body)])
         request0 MAX_RETRIES (Suc 0) (sent request0 idle_world)
   \<and> nfetch idle_world + 2
       \<le> nfetch (snd (fetchWithRetry_from_part001
                        (scripted [Responded (reply 504 JsonNull), Responded (reply 200 image_body)])
                        request0 MAX_RETRIES 0 idle_world))
   \<and> (0::nat) < 1
   \<and> Suc 0 = 1
   \<and> fetchWithRetry_from
         (scripted [Responded (reply 504 JsonNull), Responded (reply 200 image_body)])
         request0 1 0 idle_world
     = (Inl FUNCTION_INVOCATION_TIMEOUT, sent request0 idle_world)
   \<and> fetchWithRetry_from_part001
         (scripted [Responded (reply 504 JsonNull), Responded (reply 200 image_body)])
         request0 1 0 idle_world
     = (Inl (ApiError 504 ''body''), sent request0 idle_world)"
proof -
  let ?e = "scripted [Responded (reply 504 JsonNull), Responded (reply 200 image_body)]"
  have h: "fetch_outcome ?e (nfetch idle_world) = Responded (reply 504 JsonNull)"
    by (simp add: scripted_def script_def idle_world_def)
  have s: "status (reply 504 JsonNull) = 504"
    by (simp add: reply_def)
  have first: "0 < MAX_RETRIES" and more: "Suc 0 < MAX_RETRIES"
    by (simp_all add: MAX_RETRIES_def)
  have only: "(0::nat) < 1" and final: "Suc 0 = (1::nat)"
    by simp_all
  have body: "(case body_text (reply 504 JsonNull) of Inl err \<Rightarrow> err
               | Inr errorBody \<Rightarrow> ApiError 504 errorBody) = ApiError 504 ''body''"
    by (simp add: reply_def)
  note retried =
    fetchWithRetry_504[OF h s first, of request0, THEN conjunct2, THEN mp, OF more]
  note refused =
    fetchWithRetry_504[OF h s only, of request0, THEN conjunct1, THEN mp, OF final,
      unfolded body]
  from h s first more only final retried refused show ?thesis
    by blast
qed

text \<open>
  The claim as first stated fails: with the default budget, both variants answer a 504 on
  the first attempt with a second request and return its response.
\<close>

theorem fetchWithRetry_504_counterexample:
  "fetch_outcome (scripted [Responded (reply 504 JsonNull), Responded (reply 200 image_body)]) 0
     = Responded (reply 504 JsonNull)
   \<and> status (reply 504 JsonNull) = 504
   \<and> fetchWithRetry (scripted [Responded (reply 504 JsonNull), Responded (reply 200 image_body)])
         request0 MAX_RETRIES idle_world
     = (Inr (Some (reply 200 image_body)),
        \<lparr>trace = [EvFetch request0, EvSleep 1000, EvFetch request0],
         nfetch = 2, nrandom = 0, nread = 0\<rparr>)
   \<and> fetchWithRetry_part001
         (scripted [Responded (reply 504 JsonNull), Responded (reply 200 image_body)])
         request0 3 idle_world
     = (Inr (Some (reply 200 image_body)),
        \<lparr>trace = [EvFetch request0, EvFetch request0],
         nfetch = 2, nrandom = 0, nread = 0\<rparr>)"
  by (simp add: fetchWithRetry_def fetchWithRetry_from.simps iteration_def try_block_def
        catch_block_def fetchWithRetry_part001_def fetchWithRetry_from_part001.simps
        iteration_part001_def try_block_part001_def catch_block_part001_def
        fetch_def sent_def scripted_def script_def reply_def idle_world_def
        setTimeout_def ok_def MAX_RETRIES_def)

subsection \<open>The encode step\<close>

text \<open>
  Claim C10. \<^verbatim>\<open>fileToBase64\<close> of \<^verbatim>\<open>ImageStudio.jsx\<close> rejects a file of more than
  \<open>4 * 1024 * 1024 = 4194304\<close> bytes without starting a read: the world is unchanged. For a
  file of at most that size it starts the read and settles with what the reader fires:
  the part of the data URL after the first comma, or the reader's error. The function
  takes any file, whether or not the upload handler has seen it.
\<close>

theorem fileToBase64_size_limit:
  "(4194304 < file_size f \<longrightarrow> fileToBase64 e f w = (Inl ImageTooLarge, w))
   \<and> (file_size f \<le> 4194304 \<longrightarrow>
        fileToBase64 e f w =
          (if read_outcome e (nread w)
           then Inr (index (split_on CHR '','' (file_dataURL f)) 1)
           else Inl ReaderError,
           started f w))"
  by (simp add: fileToBase64_def MAX_IMAGE_SIZE_def readAsDataURL_def)

text \<open>The theorem at a file of 4194305 bytes and at a file of 4194304 bytes.\<close>

theorem fileToBase64_size_limit_witness:
  "4194304 < file_size poster
   \<and> fileToBase64 (scripted []) poster idle_world = (Inl ImageTooLarge, idle_world)
   \<and> file_size scan \<le> 4194304
   \<and> fileToBase64 (scripted []) scan idle_world
       = (Inr (Some ''QUJD''),
          \<lparr>trace = [EvRead scan], nfetch = 0, nrandom = 0, nread = 1\<rparr>)"
proof -
  have big: "4194304 < file_size poster"
    by (simp add: poster_def)
  have small: "file_size scan \<le> 4194304"
    by (simp add: scan_def)
  have read: "(if read_outcome (scripted []) (nread idle_world)
               then Inr (index (split_on CHR '','' (file_dataURL scan)) 1)
               else Inl ReaderError,
               started scan idle_world)
              = (Inr (Some ''QUJD''),
                 \<lparr>trace = [EvRead scan], nfetch = 0, nrandom = 0, nread = 1\<rparr>)"
    by (simp add: scripted_def idle_world_def scan_def index_def started_def)
  note refused =
    fileToBase64_size_limit[of poster "scripted []" idle_world, THEN conjunct1, THEN mp, OF big]
  note encoded =
    fileToBase64_size_limit[of scan "scripted []" idle_world, THEN conjunct2, THEN mp, OF small,
      unfolded read]
  from big small refused encoded show ?thesis
    by blast
qed

text \<open>
  Claim C9. In both variants, two calls of \<^verbatim>\<open>fileToBase64\<close> on the same file that both
  resolve, in whatever environment and world, resolve to the same string. (A \<^verbatim>\<open>File\<close> is
  a snapshot: a read either fails or yields the data URL of the same bytes, which the
  model keeps in \<open>file_dataURL\<close>.)
\<close>

theorem fileToBase64_deterministic:
  "(fileToBase64 e1 f w1 = (Inr s1, w1') \<and> fileToBase64 e2 f w2 = (Inr s2, w2') \<longrightarrow> s1 = s2)
   \<and> (fileToBase64_part001 e1 f w1 = (Inr s1, w1')
        \<and> fileToBase64_part001 e2 f w2 = (Inr s2, w2') \<longrightarrow> s1 = s2)"
  by (auto simp add: fileToBase64_def fileToBase64_part001_def readAsDataURL_def
        split: if_splits)

text \<open>The theorem at two reads of the same file, one after the other.\<close>

theorem fileToBase64_deterministic_witness:
  "fileToBase64 (scripted []) photo idle_world = (Inr (Some ''QUJD''), started photo idle_world)
   \<and> fileToBase64 (scripted []) photo (started photo idle_world)
       = (Inr (Some ''QUJD''), started photo (started photo idle_world))
   \<and> fileToBase64_part001 (scripted []) photo idle_world
       = (Inr (Some ''QUJD''), started photo idle_world)
   \<and> fileToBase64_part001 (scripted []) photo (started photo idle_world)
       = (Inr (Some ''QUJD''), started photo (started photo idle_world))
   \<and> Some ''QUJD'' = Some ''QUJD''"
proof -
  let ?w = "started photo idle_world"
  have a: "fileToBase64 (scripted []) photo idle_world = (Inr (Some ''QUJD''), ?w)"
    by (simp add: fileToBase64_def readAsDataURL_def MAX_IMAGE_SIZE_def photo_def scripted_def
          index_def)
  have b: "fileToBase64 (scripted []) photo ?w = (Inr (Some ''QUJD''), started photo ?w)"
    by (simp add: fileToBase64_def readAsDataURL_def MAX_IMAGE_SIZE_def photo_def scripted_def
          index_def)
  have c: "fileToBase64_part001 (scripted []) photo idle_world = (Inr (Some ''QUJD''), ?w)"
    by (simp add: fileToBase64_part001_def readAsDataURL_def photo_def scripted_def index_def)
  have d: "fileToBase64_part001 (scripted []) photo ?w = (Inr (Some ''QUJD''), started photo ?w)"
    by (simp add: fileToBase64_part001_def readAsDataURL_def photo_def scripted_def index_def)
  note new = fileToBase64_deterministic[THEN conjunct1, THEN mp, OF conjI[OF a b]]
  note old = fileToBase64_deterministic[THEN conjunct2, THEN mp, OF conjI[OF c d]]
  from a b c d new old show ?thesis
    by blast
qed

subsection \<open>One attempt of the orchestrator\<close>

lemma produced_append: "produced (xs @ ys) = produced xs @ produced ys"
  by (induction xs rule: produced.induct) simp_all

lemma length_produced: "length (produced xs) \<le> length xs"
  by (induction xs rule: produced.induct) simp_all

lemma settle_fields:
  "attemptCount (settle out s) = attemptCount s"
  "attemptLog (settle out s) = attemptLog s @ [(attemptCount s, out)]"
  "newGeneratedImages (settle out s) = newGeneratedImages s @ produced [(attemptCount s, out)]"
  "outside (settle out s) = outside s"
  "error (view (settle out s)) = error (view s)"
  "successMessage (view (settle out s)) = successMessage (view s)"
  "generatedImages (view (settle out s)) =
     (case out of Produced url \<Rightarrow> newGeneratedImages s @ [url]
      | NoImage fr \<Rightarrow> generatedImages (view s)
      | Failed err \<Rightarrow> generatedImages (view s))"
  by (simp_all add: settle_def Let_def split: attempt_outcome.splits)

lemma loop_body_eq:
  "loop_body e base ftype b64 i s =
     settle (attempt_outcome_of
               (fst (fetchWithRetry e (make_payload base (i + 1) None ftype b64) MAX_RETRIES
                       (before i s))))
       (s\<lparr>attemptCount := Suc (attemptCount s),
          view := (view s)\<lparr>currentGeneratingIndex := i + 1\<rparr>,
          outside := snd (fetchWithRetry e (make_payload base (i + 1) None ftype b64) MAX_RETRIES
                            (before i s))\<rparr>)"
  by (simp add: loop_body_def Let_def before_def split: prod.splits)

lemma loop_body_fields:
  "attemptCount (loop_body e base ftype b64 i s) = Suc (attemptCount s)"
  "attemptLog (loop_body e base ftype b64 i s) =
     attemptLog s @
       [(Suc (attemptCount s),
         attempt_outcome_of
           (fst (fetchWithRetry e (make_payload base (i + 1) None ftype b64) MAX_RETRIES
                   (before i s))))]"
  "newGeneratedImages (loop_body e base ftype b64 i s) =
     newGeneratedImages s @
       produced [(Suc (attemptCount s),
         attempt_outcome_of
           (fst (fetchWithRetry e (make_payload base (i + 1) None ftype b64) MAX_RETRIES
                   (before i s))))]"
  "outside (loop_body e base ftype b64 i s) =
     snd (fetchWithRetry e (make_payload base (i + 1) None ftype b64) MAX_RETRIES (before i s))"
  "error (view (loop_body e base ftype b64 i s)) = error (view s)"
  "successMessage (view (loop_body e base ftype b64 i s)) = successMessage (view s)"
  by (simp_all add: loop_body_eq settle_fields)


lemma loop_body_published:
  "generatedImages (view s) = newGeneratedImages s \<Longrightarrow>
     generatedImages (view (loop_body e base ftype b64 i s)) =
       newGeneratedImages (loop_body e base ftype b64 i s)"
  by (simp add: loop_body_eq settle_fields split: attempt_outcome.splits)

lemma loop_body_consistent:
  "consistent s \<Longrightarrow> consistent (loop_body e base ftype b64 i s)"
  by (simp add: consistent_def loop_body_fields produced_append)

subsection \<open>The attempt loop of \<^verbatim>\<open>ImageStudio.jsx\<close>\<close>

lemma generate_loop_consistent:
  "consistent s \<Longrightarrow> consistent (generate_loop e base ftype b64 target i s)"
proof (induction e base ftype b64 target i s rule: generate_loop.induct)
  case (1 e base ftype b64 target i s)
  then show ?case
    by (simp add: generate_loop.simps[of e base ftype b64 target i s] loop_body_consistent)
qed

lemma generate_loop_published:
  "generatedImages (view s) = newGeneratedImages s \<Longrightarrow>
     generatedImages (view (generate_loop e base ftype b64 target i s)) =
       newGeneratedImages (generate_loop e base ftype b64 target i s)"
proof (induction e base ftype b64 target i s rule: generate_loop.induct)
  case (1 e base ftype b64 target i s)
  then show ?case
    by (simp add: generate_loop.simps[of e base ftype b64 target i s] loop_body_published)
qed

lemma generate_loop_messages:
  "error (view (generate_loop e base ftype b64 target i s)) = error (view s)
   \<and> successMessage (view (generate_loop e base ftype b64 target i s)) = successMessage (view s)"
proof (induction e base ftype b64 target i s rule: generate_loop.induct)
  case (1 e base ftype b64 target i s)
  then show ?case
    by (simp add: generate_loop.simps[of e base ftype b64 target i s] loop_body_fields)
qed

lemma generate_loop_count:
  "attemptCount s = i \<Longrightarrow>
     attemptCount (generate_loop e base ftype b64 target i s) = max i (nat target)"
proof (induction e base ftype b64 target i s rule: generate_loop.induct)
  case (1 e base ftype b64 target i s)
  show ?case
  proof (cases "int i < target")
    case True
    then have "int (attemptCount s) < target * 2"
      using "1.prems" by simp
    with True "1.IH" "1.prems" show ?thesis
      by (simp add: generate_loop.simps[of e base ftype b64 target i s] loop_body_fields)
  next
    case False
    with "1.prems" show ?thesis
      by (simp add: generate_loop.simps[of e base ftype b64 target i s])
  qed
qed


subsection \<open>The attempt loop of \<^verbatim>\<open>part_001\<close>\<close>

lemma settle_part001_fields:
  "fst (settle_part001 out s) =
     (case out of Produced url \<Rightarrow> None | NoImage fr \<Rightarrow> None | Failed err \<Rightarrow> Some err)"
  "attemptCount (snd (settle_part001 out s)) = attemptCount s"
  "attemptLog (snd (settle_part001 out s)) = attemptLog s @ [(attemptCount s, out)]"
  "newGeneratedImages (snd (settle_part001 out s)) =
     newGeneratedImages s @ produced [(attemptCount s, out)]"
  "outside (snd (settle_part001 out s)) = outside s"
  "error (view (snd (settle_part001 out s))) = error (view s)"
  "successMessage (view (snd (settle_part001 out s))) = successMessage (view s)"
  "generatedImages (view (snd (settle_part001 out s))) =
     (case out of Produced url \<Rightarrow> newGeneratedImages s @ [url]
      | NoImage fr \<Rightarrow> generatedImages (view s)
      | Failed err \<Rightarrow> generatedImages (view s))"
  by (simp_all add: settle_part001_def Let_def split: attempt_outcome.splits)

lemma loop_body_part001_eq:
  "loop_body_part001 e base ftype b64 s =
     settle_part001
       (attempt_outcome_of_part001
          (fst (fetchWithRetry_part001 e
                  (make_payload base (length (newGeneratedImages s) + 1)
                     (Some (Suc (attemptCount s))) ftype b64) 3 (outside s))))
       (s\<lparr>attemptCount := Suc (attemptCount s),
          view := (view s)\<lparr>currentGeneratingIndex := length (newGeneratedImages s) + 1\<rparr>,
          outside := snd (fetchWithRetry_part001 e
                            (make_payload base (length (newGeneratedImages s) + 1)
                               (Some (Suc (attemptCount s))) ftype b64) 3 (outside s))\<rparr>)"
  by (simp add: loop_body_part001_def Let_def split: prod.splits)

lemma loop_body_part001_fields:
  "fst (loop_body_part001 e base ftype b64 s) =
     (case attempt_outcome_of_part001
             (fst (fetchWithRetry_part001 e
                     (make_payload base (length (newGeneratedImages s) + 1)
                        (Some (Suc (attemptCount s))) ftype b64) 3 (outside s))) of
        Produced url \<Rightarrow> None | NoImage fr \<Rightarrow> None | Failed err \<Rightarrow> Some err)"
  "attemptCount (snd (loop_body_part001 e base ftype b64 s)) = Suc (attemptCount s)"
  "attemptLog (snd (loop_body_part001 e base ftype b64 s)) =
     attemptLog s @
       [(Suc (attemptCount s),
         attempt_outcome_of_part001
           (fst (fetchWithRetry_part001 e
                   (make_payload base (length (newGeneratedImages s) + 1)
                      (Some (Suc (attemptCount s))) ftype b64) 3 (outside s))))]"
  "newGeneratedImages (snd (loop_body_part001 e base ftype b64 s)) =
     newGeneratedImages s @
       produced [(Suc (attemptCount s),
         attempt_outcome_of_part001
           (fst (fetchWithRetry_part001 e
                   (make_payload base (length (newGeneratedImages s) + 1)
                      (Some (Suc (attemptCount s))) ftype b64) 3 (outside s))))]"
  "outside (snd (loop_body_part001 e base ftype b64 s)) =
     snd (fetchWithRetry_part001 e
            (make_payload base (length (newGeneratedImages s) + 1)
               (Some (Suc (attemptCount s))) ftype b64) 3 (outside s))"
  "error (view (snd (loop_body_part001 e base ftype b64 s))) = error (view s)"
  "successMessage (view (snd (loop_body_part001 e base ftype b64 s))) = successMessage (view s)"
  by (simp_all add: loop_body_part001_eq settle_part001_fields)

lemma loop_body_part001_published:
  "generatedImages (view s) = newGeneratedImages s \<Longrightarrow>
     generatedImages (view (snd (loop_body_part001 e base ftype b64 s))) =
       newGeneratedImages (snd (loop_body_part001 e base ftype b64 s))"
  by (simp add: loop_body_part001_eq settle_part001_fields split: attempt_outcome.splits)

lemma loop_body_part001_consistent:
  "consistent s \<Longrightarrow> consistent (snd (loop_body_part001 e base ftype b64 s))"
  by (simp add: consistent_def loop_body_part001_fields produced_append)

lemma loop_body_part001_thrown:
  "loop_body_part001 e base ftype b64 s = (Some err, s1) \<Longrightarrow>
     attemptLog s1 = attemptLog s @ [(Suc (attemptCount s), Failed err)]"
  using loop_body_part001_fields(1,3)[of e base ftype b64 s]
  by (auto split: attempt_outcome.splits)

lemma generate_loop_part001_stop:
  "\<not> (int (length (newGeneratedImages s)) < target \<and> int (attemptCount s) < target * 2) \<Longrightarrow>
     generate_loop_part001 e base ftype b64 target s = (None, s)"
  by (subst generate_loop_part001.simps) (rule if_not_P)

lemma generate_loop_part001_step:
  "int (length (newGeneratedImages s)) < target \<and> int (attemptCount s) < target * 2 \<Longrightarrow>
     generate_loop_part001 e base ftype b64 target s =
       (case loop_body_part001 e base ftype b64 s of
          (Some err, s1) \<Rightarrow> (Some err, s1)
        | (None, s1) \<Rightarrow> generate_loop_part001 e base ftype b64 target s1)"
  by (subst generate_loop_part001.simps) (rule if_P)

lemma generate_loop_part001_consistent:
  "consistent s \<Longrightarrow> consistent (snd (generate_loop_part001 e base ftype b64 target s))"
proof (induction e base ftype b64 target s rule: generate_loop_part001.induct)
  case (1 e base ftype b64 target s)
  obtain r s1 where b: "loop_body_part001 e base ftype b64 s = (r, s1)"
    by (cases "loop_body_part001 e base ftype b64 s")
  have c1: "consistent s1"
    using loop_body_part001_consistent[OF "1.prems", of e base ftype b64] b by simp
  show ?case
    using 1 b c1
    by (cases r) (simp_all add: generate_loop_part001.simps[of e base ftype b64 target s])
qed

lemma generate_loop_part001_published:
  "generatedImages (view s) = newGeneratedImages s \<Longrightarrow>
     generatedImages (view (snd (generate_loop_part001 e base ftype b64 target s))) =
       newGeneratedImages (snd (generate_loop_part001 e base ftype b64 target s))"
proof (induction e base ftype b64 target s rule: generate_loop_part001.induct)
  case (1 e base ftype b64 target s)
  obtain r s1 where b: "loop_body_part001 e base ftype b64 s = (r, s1)"
    by (cases "loop_body_part001 e base ftype b64 s")
  have c1: "generatedImages (view s1) = newGeneratedImages s1"
    using loop_body_part001_published[OF "1.prems", of e base ftype b64] b by simp
  show ?case
    using 1 b c1
    by (cases r) (simp_all add: generate_loop_part001.simps[of e base ftype b64 target s])
qed

lemma generate_loop_part001_messages:
  "error (view (snd (generate_loop_part001 e base ftype b64 target s))) = error (view s)
   \<and> successMessage (view (snd (generate_loop_part001 e base ftype b64 target s))) =
       successMessage (view s)"
proof (induction e base ftype b64 target s rule: generate_loop_part001.induct)
  case (1 e base ftype b64 target s)
  obtain r s1 where b: "loop_body_part001 e base ftype b64 s = (r, s1)"
    by (cases "loop_body_part001 e base ftype b64 s")
  have c1: "error (view s1) = error (view s) \<and> successMessage (view s1) = successMessage (view s)"
    using loop_body_part001_fields(6,7)[of e base ftype b64 s] b by simp
  show ?case
    using 1 b c1
    by (cases r) (simp_all add: generate_loop_part001.simps[of e base ftype b64 target s])
qed

lemma generate_loop_part001_bounds:
  assumes "int (attemptCount s) \<le> max 0 (target * 2)"
    and "int (length (newGeneratedImages s)) \<le> max 0 target"
  shows "int (attemptCount (snd (generate_loop_part001 e base ftype b64 target s)))
           \<le> max 0 (target * 2)
         \<and> int (length (newGeneratedImages (snd (generate_loop_part001 e base ftype b64 target s))))
           \<le> max 0 target"
  using assms
proof (induction e base ftype b64 target s rule: generate_loop_part001.induct)
  case (1 e base ftype b64 target s)
  obtain r s1 where b: "loop_body_part001 e base ftype b64 s = (r, s1)"
    by (cases "loop_body_part001 e base ftype b64 s")
  have a1: "attemptCount s1 = Suc (attemptCount s)"
    using loop_body_part001_fields(2)[of e base ftype b64 s] b by simp
  have l1: "length (newGeneratedImages s1) \<le> Suc (length (newGeneratedImages s))"
    using loop_body_part001_fields(4)[of e base ftype b64 s] b
      length_produced[of "[(Suc (attemptCount s),
         attempt_outcome_of_part001
           (fst (fetchWithRetry_part001 e
                   (make_payload base (length (newGeneratedImages s) + 1)
                      (Some (Suc (attemptCount s))) ftype b64) 3 (outside s))))]"]
    by simp
  show ?case
  proof (cases "int (length (newGeneratedImages s)) < target
                \<and> int (attemptCount s) < target * 2")
    case True
    then have pre: "int (attemptCount s1) \<le> max 0 (target * 2)"
      "int (length (newGeneratedImages s1)) \<le> max 0 target"
      using a1 l1 by simp_all
    show ?thesis
      using True b pre "1.IH"[OF True b[symmetric]]
      by (cases r) (simp_all add: generate_loop_part001.simps[of e base ftype b64 target s])
  next
    case False
    show ?thesis
      using "1.prems" by (simp add: generate_loop_part001_stop[OF False])
  qed
qed

lemma generate_loop_part001_exit:
  "generate_loop_part001 e base ftype b64 target s = (None, s') \<Longrightarrow>
     \<not> (int (length (newGeneratedImages s')) < target \<and> int (attemptCount s') < target * 2)"
proof (induction e base ftype b64 target s rule: generate_loop_part001.induct)
  case (1 e base ftype b64 target s)
  obtain r s1 where b: "loop_body_part001 e base ftype b64 s = (r, s1)"
    by (cases "loop_body_part001 e base ftype b64 s")
  show ?case
  proof (cases "int (length (newGeneratedImages s)) < target
                \<and> int (attemptCount s) < target * 2")
    case True
    with 1 b show ?thesis
      by (cases r) (simp_all add: generate_loop_part001.simps[of e base ftype b64 target s])
  next
    case False
    show ?thesis
      using "1.prems" False by (simp add: generate_loop_part001_stop[OF False])
  qed
qed

lemma generate_loop_part001_abort:
  "generate_loop_part001 e base ftype b64 target s = (Some err, s') \<Longrightarrow>
     attemptLog s' \<noteq> [] \<and> snd (last (attemptLog s')) = Failed err"
proof (induction e base ftype b64 target s rule: generate_loop_part001.induct)
  case (1 e base ftype b64 target s)
  obtain r s1 where b: "loop_body_part001 e base ftype b64 s = (r, s1)"
    by (cases "loop_body_part001 e base ftype b64 s")
  show ?case
  proof (cases "int (length (newGeneratedImages s)) < target
                \<and> int (attemptCount s) < target * 2")
    case True
    show ?thesis
    proof (cases r)
      case None
      with 1 b True show ?thesis
        by (simp add: generate_loop_part001.simps[of e base ftype b64 target s])
    next
      case (Some err')
      with "1.prems" b True have "err' = err" "s' = s1"
        by (simp_all add: generate_loop_part001.simps[of e base ftype b64 target s])
      with loop_body_part001_thrown[of e base ftype b64 s err' s1] b Some show ?thesis
        by simp
    qed
  next
    case False
    show ?thesis
      using "1.prems" False by (simp add: generate_loop_part001_stop[OF False])
  qed
qed

subsection \<open>The effects of the attempts\<close>

lemma extends_iff:
  "extends ftype b64 w w' \<longleftrightarrow>
     (\<exists>evs. trace w' = trace w @ evs \<and> list_all (carries ftype b64) evs) \<and> nread w' = nread w"
proof
  assume e: "extends ftype b64 w w'"
  have "trace w' = take (length (trace w)) (trace w') @ drop (length (trace w)) (trace w')"
    by simp
  with e show "(\<exists>evs. trace w' = trace w @ evs \<and> list_all (carries ftype b64) evs)
      \<and> nread w' = nread w"
    unfolding extends_def by metis
next
  assume "(\<exists>evs. trace w' = trace w @ evs \<and> list_all (carries ftype b64) evs)
      \<and> nread w' = nread w"
  then show "extends ftype b64 w w'"
    by (auto simp add: extends_def)
qed

lemma extends_refl: "extends ftype b64 w w"
  by (simp add: extends_def)

lemma extends_trans:
  assumes "extends ftype b64 w w'" and "extends ftype b64 w' w''"
  shows "extends ftype b64 w w''"
proof -
  obtain evs where 1: "trace w' = trace w @ evs" "list_all (carries ftype b64) evs"
    "nread w' = nread w"
    using assms(1) by (auto simp add: extends_iff)
  obtain evs' where 2: "trace w'' = trace w' @ evs'" "list_all (carries ftype b64) evs'"
    "nread w'' = nread w'"
    using assms(2) by (auto simp add: extends_iff)
  have "trace w'' = trace w @ (evs @ evs')" "list_all (carries ftype b64) (evs @ evs')"
    using 1 2 by simp_all
  with 1 2 show ?thesis
    unfolding extends_iff by metis
qed

lemma extends_sent:
  "inline_type rq = ftype \<Longrightarrow> inline_base64 rq = b64 \<Longrightarrow> extends ftype b64 w (sent rq w)"
  by (simp add: extends_def sent_def carries_def)

lemma extends_setTimeout: "extends ftype b64 w (setTimeout d w)"
  by (simp add: extends_def setTimeout_def carries_def)

lemma extends_drawn: "extends ftype b64 w (drawn w)"
  by (simp add: extends_def drawn_def)

lemma extends_wait:
  "extends ftype b64 w w' \<Longrightarrow> extends ftype b64 w (setTimeout d w')"
  by (rule extends_trans[OF _ extends_setTimeout])

lemma iteration_extends:
  assumes "inline_type rq = ftype" and "inline_base64 rq = b64"
  shows "extends ftype b64 w (snd (iteration e rq retries i w))"
proof -
  note s = extends_sent[OF assms, of w]
  have d: "extends ftype b64 w (drawn (sent rq w))"
    by (rule extends_trans[OF s extends_drawn])
  show ?thesis
    by (simp add: iteration_def try_block_def catch_block_def fetch_def Math_random_def
          s extends_wait[OF s] extends_wait[OF d]
        split: fetch_result.splits sum.splits)
qed

lemma iteration_part001_extends:
  assumes "inline_type rq = ftype" and "inline_base64 rq = b64"
  shows "extends ftype b64 w (snd (iteration_part001 e rq retries i w))"
proof -
  note s = extends_sent[OF assms, of w]
  have d: "extends ftype b64 w (drawn (sent rq w))"
    by (rule extends_trans[OF s extends_drawn])
  show ?thesis
    by (simp add: iteration_part001_def try_block_part001_def catch_block_part001_def fetch_def
          Math_random_def s extends_wait[OF s] extends_wait[OF d]
        split: fetch_result.splits sum.splits)
qed

lemma from_extends:
  assumes "inline_type rq = ftype" and "inline_base64 rq = b64"
  shows "extends ftype b64 w (snd (fetchWithRetry_from e rq retries i w))"
  using assms
proof (induction e rq retries i w rule: fetchWithRetry_from.induct)
  case (1 e rq retries i w)
  obtain c w1 where it: "iteration e rq retries i w = (c, w1)"
    by (cases "iteration e rq retries i w")
  have step: "extends ftype b64 w w1"
    using iteration_extends[OF "1.prems", of w e retries i] it by simp
  show ?case
  proof (cases "i < retries")
    case True
    show ?thesis
    proof (cases c)
      case (Return r)
      with True it step show ?thesis
        by (simp add: fetchWithRetry_from.simps[of e rq retries i w])
    next
      case Continue
      have "extends ftype b64 w1 (snd (fetchWithRetry_from e rq retries (Suc i) w1))"
        using "1.IH"[OF True it[symmetric] Continue "1.prems"] .
      with True it Continue show ?thesis
        by (simp add: fetchWithRetry_from.simps[of e rq retries i w] extends_trans[OF step])
    next
      case (Throw err)
      with True it step show ?thesis
        by (simp add: fetchWithRetry_from.simps[of e rq retries i w])
    qed
  next
    case False
    then show ?thesis
      by (simp add: fetchWithRetry_from.simps[of e rq retries i w] extends_refl)
  qed
qed

lemma from_part001_extends:
  assumes "inline_type rq = ftype" and "inline_base64 rq = b64"
  shows "extends ftype b64 w (snd (fetchWithRetry_from_part001 e rq retries i w))"
  using assms
proof (induction e rq retries i w rule: fetchWithRetry_from_part001.induct)
  case (1 e rq retries i w)
  obtain c w1 where it: "iteration_part001 e rq retries i w = (c, w1)"
    by (cases "iteration_part001 e rq retries i w")
  have step: "extends ftype b64 w w1"
    using iteration_part001_extends[OF "1.prems", of w e retries i] it by simp
  show ?case
  proof (cases "i < retries")
    case True
    show ?thesis
    proof (cases c)
      case (Return r)
      with True it step show ?thesis
        by (simp add: fetchWithRetry_from_part001.simps[of e rq retries i w])
    next
      case Continue
      have "extends ftype b64 w1 (snd (fetchWithRetry_from_part001 e rq retries (Suc i) w1))"
        using "1.IH"[OF True it[symmetric] Continue "1.prems"] .
      with True it Continue show ?thesis
        by (simp add: fetchWithRetry_from_part001.simps[of e rq retries i w]
              extends_trans[OF step])
    next
      case (Throw err)
      with True it step show ?thesis
        by (simp add: fetchWithRetry_from_part001.simps[of e rq retries i w])
    qed
  next
    case False
    then show ?thesis
      by (simp add: fetchWithRetry_from_part001.simps[of e rq retries i w] extends_refl)
  qed
qed

lemma loop_body_extends:
  "extends ftype b64 (outside s) (outside (loop_body e base ftype b64 i s))"
proof -
  have "extends ftype b64 (outside s) (before i s)"
    by (simp add: before_def extends_refl extends_setTimeout)
  moreover have "extends ftype b64 (before i s)
      (snd (fetchWithRetry e (make_payload base (i + 1) None ftype b64) MAX_RETRIES (before i s)))"
    unfolding fetchWithRetry_def by (rule from_extends) (simp_all add: make_payload_def)
  ultimately show ?thesis
    by (simp add: loop_body_fields extends_trans)
qed

lemma loop_body_part001_extends:
  "extends ftype b64 (outside s) (outside (snd (loop_body_part001 e base ftype b64 s)))"
  unfolding loop_body_part001_fields fetchWithRetry_part001_def
  by (rule from_part001_extends) (simp_all add: make_payload_def)

lemma generate_loop_extends:
  "extends ftype b64 (outside s) (outside (generate_loop e base ftype b64 target i s))"
proof (induction e base ftype b64 target i s rule: generate_loop.induct)
  case (1 e base ftype b64 target i s)
  show ?case
  proof (cases "int i < target \<and> int (attemptCount s) < target * 2")
    case True
    with "1.IH" show ?thesis
      by (simp add: generate_loop.simps[of e base ftype b64 target i s]
            extends_trans[OF loop_body_extends])
  next
    case False
    have "generate_loop e base ftype b64 target i s = s"
      by (subst generate_loop.simps) (rule if_not_P[OF False])
    then show ?thesis
      by (simp add: extends_refl)
  qed
qed

lemma generate_loop_part001_extends:
  "extends ftype b64 (outside s) (outside (snd (generate_loop_part001 e base ftype b64 target s)))"
proof (induction e base ftype b64 target s rule: generate_loop_part001.induct)
  case (1 e base ftype b64 target s)
  obtain r s1 where b: "loop_body_part001 e base ftype b64 s = (r, s1)"
    by (cases "loop_body_part001 e base ftype b64 s")
  have step: "extends ftype b64 (outside s) (outside s1)"
    using loop_body_part001_extends[of ftype b64 s e base] b by simp
  show ?case
  proof (cases "int (length (newGeneratedImages s)) < target
                \<and> int (attemptCount s) < target * 2")
    case True
    show ?thesis
    proof (cases r)
      case None
      with "1.IH"[OF True b[symmetric]] b step show ?thesis
        by (simp add: generate_loop_part001_step[OF True] extends_trans[OF step])
    next
      case (Some err)
      with b step show ?thesis
        by (simp add: generate_loop_part001_step[OF True])
    qed
  next
    case False
    show ?thesis
      by (simp add: generate_loop_part001_stop[OF False] extends_refl)
  qed
qed

subsection \<open>The blank prompt\<close>

text \<open>
  The validation of \<^verbatim>\<open>ImageStudio.jsx\<close> stops exactly at the prompts that consist of white
  space only, the no-break space and the other Unicode spaces included; such a run makes
  no read and no attempt.
\<close>

lemma trim_empty_iff: "trim s = [] \<longleftrightarrow> list_all js_whitespace s"
proof
  assume "trim s = []"
  then have all: "\<forall>c \<in> set (dropWhile js_whitespace s). js_whitespace c"
    by (simp add: trim_def dropWhile_eq_Nil_conv)
  have "dropWhile js_whitespace s = []"
  proof (rule ccontr)
    assume ne: "dropWhile js_whitespace s \<noteq> []"
    then have "\<not> js_whitespace (hd (dropWhile js_whitespace s))"
      by (rule hd_dropWhile)
    moreover have "hd (dropWhile js_whitespace s) \<in> set (dropWhile js_whitespace s)"
      using ne by simp
    ultimately show False
      using all by blast
  qed
  then show "list_all js_whitespace s"
    by (simp add: dropWhile_eq_Nil_conv list_all_iff)
next
  assume "list_all js_whitespace s"
  then have none: "dropWhile js_whitespace s = []"
    by (simp add: dropWhile_eq_Nil_conv list_all_iff)
  show "trim s = []"
    unfolding trim_def none by simp
qed

lemma trim_no_break_space: "trim [0x00A0] = []"
  by (simp add: trim_def js_whitespace_def)

lemma handleGenerate_blank_prompt:
  "handleGenerate e (blank_prompt n) v w = start (v\<lparr>error := Some NoPrompt\<rparr>) w"
  by (simp add: handleGenerate_def blank_prompt_def trim_def js_whitespace_def)

subsection \<open>A whole session\<close>

lemma start_fields:
  "newGeneratedImages (start v w) = []" "attemptCount (start v w) = 0"
  "attemptLog (start v w) = []" "view (start v w) = v" "outside (start v w) = w"
  by (simp_all add: start_def)

lemma consistent_start: "consistent (start v w)"
  by (simp add: consistent_def start_def)

lemma finally_block_fields:
  "newGeneratedImages (finally_block s) = newGeneratedImages s"
  "attemptCount (finally_block s) = attemptCount s"
  "attemptLog (finally_block s) = attemptLog s"
  "outside (finally_block s) = outside s"
  "generatedImages (view (finally_block s)) = generatedImages (view s)"
  "error (view (finally_block s)) = error (view s)"
  "successMessage (view (finally_block s)) = successMessage (view s)"
  "loading (view (finally_block s)) = False"
  by (simp_all add: finally_block_def)

lemma reset_fields:
  "generatedImages (reset v) = []" "error (reset v) = None" "successMessage (reset v) = None"
  by (simp_all add: reset_def)

lemma handleGenerate_run:
  assumes "referenceImage inp = Some f"
    and "\<not> (mode inp = Generate \<and> trim (prompt inp) = [])"
    and "fileToBase64 e f w = (Inr b64, w1)"
    and "L = generate_loop e (optimizedPrompt inp) (file_type f) b64
               (min (candidateCount inp) 3) 0 (start (reset v) w1)"
  shows "newGeneratedImages (handleGenerate e inp v w) = newGeneratedImages L"
    and "attemptCount (handleGenerate e inp v w) = attemptCount L"
    and "attemptLog (handleGenerate e inp v w) = attemptLog L"
    and "outside (handleGenerate e inp v w) = outside L"
    and "generatedImages (view (handleGenerate e inp v w)) = newGeneratedImages L"
    and "error (view (handleGenerate e inp v w)) =
           (if newGeneratedImages L = [] then Some NothingGenerated else None)"
    and "successMessage (view (handleGenerate e inp v w)) =
           (if newGeneratedImages L = [] then None
            else Some (Generated (length (newGeneratedImages L))))"
proof -
  have pub: "generatedImages (view L) = newGeneratedImages L"
    unfolding assms(4) by (rule generate_loop_published) (simp add: start_def reset_def)
  have msg: "error (view L) = None" "successMessage (view L) = None"
    unfolding assms(4) by (simp_all add: generate_loop_messages start_def reset_def)
  have eq: "handleGenerate e inp v w =
      finally_block
        (if length (newGeneratedImages L) > 0
         then L\<lparr>view := (view L)\<lparr>successMessage := Some (Generated (length (newGeneratedImages L))),
                                 currentImageIndex := 0\<rparr>\<rparr>
         else L\<lparr>view := (view L)\<lparr>error := Some NothingGenerated\<rparr>\<rparr>)"
    unfolding assms(4) using assms(1,3)
    by (simp add: handleGenerate_def Let_def if_not_P[OF assms(2)])
  show "newGeneratedImages (handleGenerate e inp v w) = newGeneratedImages L"
    and "attemptCount (handleGenerate e inp v w) = attemptCount L"
    and "attemptLog (handleGenerate e inp v w) = attemptLog L"
    and "outside (handleGenerate e inp v w) = outside L"
    and "generatedImages (view (handleGenerate e inp v w)) = newGeneratedImages L"
    and "error (view (handleGenerate e inp v w)) =
           (if newGeneratedImages L = [] then Some NothingGenerated else None)"
    and "successMessage (view (handleGenerate e inp v w)) =
           (if newGeneratedImages L = [] then None
            else Some (Generated (length (newGeneratedImages L))))"
    using pub msg by (simp_all add: eq finally_block_fields)
qed

lemma handleGenerate_idle:
  assumes "referenceImage inp = None
           \<or> (mode inp = Generate \<and> trim (prompt inp) = [])
           \<or> (\<exists>f err w1. referenceImage inp = Some f \<and> fileToBase64 e f w = (Inl err, w1))"
  shows "newGeneratedImages (handleGenerate e inp v w) = []
         \<and> attemptCount (handleGenerate e inp v w) = 0
         \<and> attemptLog (handleGenerate e inp v w) = []"
  using assms
  by (auto simp add: handleGenerate_def Let_def start_def finally_block_def
        split: option.splits)

lemma handleGenerate_part001_run:
  assumes "referenceImage inp = Some f"
    and "\<not> (mode inp = Generate \<and> prompt inp = [])"
    and "fileToBase64_part001 e f w = (Inr b64, w1)"
    and "generate_loop_part001 e (optimizedPrompt inp) (file_type f) b64
           (candidateCount inp) (start (reset v) w1) = (r, L)"
  shows "newGeneratedImages (handleGenerate_part001 e inp v w) = newGeneratedImages L"
    and "attemptCount (handleGenerate_part001 e inp v w) = attemptCount L"
    and "attemptLog (handleGenerate_part001 e inp v w) = attemptLog L"
    and "outside (handleGenerate_part001 e inp v w) = outside L"
    and "generatedImages (view (handleGenerate_part001 e inp v w)) = newGeneratedImages L"
    and "error (view (handleGenerate_part001 e inp v w)) =
           (case r of None \<Rightarrow> None | Some err \<Rightarrow> Some (Critical err))"
    and "successMessage (view (handleGenerate_part001 e inp v w)) = None"
proof -
  have pub: "generatedImages (view L) = newGeneratedImages L"
    using generate_loop_part001_published[of "start (reset v) w1" e "optimizedPrompt inp"
        "file_type f" b64 "candidateCount inp"] assms(4)
    by (simp add: start_def reset_def)
  have msg: "error (view L) = None" "successMessage (view L) = None"
    using generate_loop_part001_messages[of e "optimizedPrompt inp" "file_type f" b64
        "candidateCount inp" "start (reset v) w1"] assms(4)
    by (simp_all add: start_def reset_def)
  have eq: "handleGenerate_part001 e inp v w =
      finally_block
        (case r of
           Some err \<Rightarrow> L\<lparr>view := (view L)\<lparr>error := Some (Critical err)\<rparr>\<rparr>
         | None \<Rightarrow> L\<lparr>view := (view L)\<lparr>successMessage := None\<rparr>\<rparr>)"
    using assms(1,3,4) assms(2)
    by (cases "mode inp") (simp_all add: handleGenerate_part001_def Let_def)
  show "newGeneratedImages (handleGenerate_part001 e inp v w) = newGeneratedImages L"
    and "attemptCount (handleGenerate_part001 e inp v w) = attemptCount L"
    and "attemptLog (handleGenerate_part001 e inp v w) = attemptLog L"
    and "outside (handleGenerate_part001 e inp v w) = outside L"
    and "generatedImages (view (handleGenerate_part001 e inp v w)) = newGeneratedImages L"
    and "error (view (handleGenerate_part001 e inp v w)) =
           (case r of None \<Rightarrow> None | Some err \<Rightarrow> Some (Critical err))"
    and "successMessage (view (handleGenerate_part001 e inp v w)) = None"
    using pub msg by (simp_all add: eq finally_block_fields split: option.splits)
qed

lemma handleGenerate_part001_idle:
  assumes "referenceImage inp = None
           \<or> (mode inp = Generate \<and> prompt inp = [])
           \<or> (\<exists>f err w1. referenceImage inp = Some f
                 \<and> fileToBase64_part001 e f w = (Inl err, w1))"
  shows "newGeneratedImages (handleGenerate_part001 e inp v w) = []
         \<and> attemptCount (handleGenerate_part001 e inp v w) = 0
         \<and> attemptLog (handleGenerate_part001 e inp v w) = []"
  using assms
  by (cases "mode inp")
     (auto simp add: handleGenerate_part001_def Let_def start_def finally_block_def
        split: option.splits)

subsection \<open>The attempt budget and the order of the results\<close>

lemma consistent_fields:
  assumes "newGeneratedImages t = newGeneratedImages s" and "attemptCount t = attemptCount s"
    and "attemptLog t = attemptLog s"
  shows "consistent t = consistent s"
  using assms by (simp add: consistent_def)

lemma handleGenerate_cases:
  obtains
    (idle) "referenceImage inp = None
            \<or> (mode inp = Generate \<and> trim (prompt inp) = [])
            \<or> (\<exists>f err w1. referenceImage inp = Some f \<and> fileToBase64 e f w = (Inl err, w1))"
  | (run) f b64 w1 where "referenceImage inp = Some f"
      and "\<not> (mode inp = Generate \<and> trim (prompt inp) = [])"
      and "fileToBase64 e f w = (Inr b64, w1)"
proof (cases "referenceImage inp")
  case None
  then show ?thesis using idle by simp
next
  case (Some f)
  show ?thesis
  proof (cases "mode inp = Generate \<and> trim (prompt inp) = []")
    case True
    then show ?thesis using idle by simp
  next
    case False
    obtain r w1 where enc: "fileToBase64 e f w = (r, w1)"
      by (cases "fileToBase64 e f w")
    show ?thesis
    proof (cases r)
      case (Inl err)
      with Some enc show ?thesis using idle by blast
    next
      case (Inr b64)
      with Some False enc show ?thesis using run by blast
    qed
  qed
qed

lemma handleGenerate_part001_cases:
  obtains
    (idle) "referenceImage inp = None
            \<or> (mode inp = Generate \<and> prompt inp = [])
            \<or> (\<exists>f err w1. referenceImage inp = Some f
                  \<and> fileToBase64_part001 e f w = (Inl err, w1))"
  | (run) f b64 w1 r L where "referenceImage inp = Some f"
      and "\<not> (mode inp = Generate \<and> prompt inp = [])"
      and "fileToBase64_part001 e f w = (Inr b64, w1)"
      and "generate_loop_part001 e (optimizedPrompt inp) (file_type f) b64
             (candidateCount inp) (start (reset v) w1) = (r, L)"
proof (cases "referenceImage inp")
  case None
  then show ?thesis using idle by simp
next
  case (Some f)
  show ?thesis
  proof (cases "mode inp = Generate \<and> prompt inp = []")
    case True
    then show ?thesis using idle by simp
  next
    case False
    obtain r w1 where enc: "fileToBase64_part001 e f w = (r, w1)"
      by (cases "fileToBase64_part001 e f w")
    show ?thesis
    proof (cases r)
      case (Inl err)
      with Some enc show ?thesis using idle by blast
    next
      case (Inr b64)
      obtain r' L where "generate_loop_part001 e (optimizedPrompt inp) (file_type f) b64
             (candidateCount inp) (start (reset v) w1) = (r', L)"
        by (cases "generate_loop_part001 e (optimizedPrompt inp) (file_type f) b64
             (candidateCount inp) (start (reset v) w1)")
      with Inr Some False enc show ?thesis using run by blast
    qed
  qed
qed

lemma handleGenerate_consistent: "consistent (handleGenerate e inp v w)"
proof (cases rule: handleGenerate_cases[where inp=inp and e=e and w=w])
  case idle
  then show ?thesis
    using handleGenerate_idle[where inp=inp and e=e and w=w and v=v] by (simp add: consistent_def)
next
  case (run f b64 w1)
  let ?L = "generate_loop e (optimizedPrompt inp) (file_type f) b64
              (min (candidateCount inp) 3) 0 (start (reset v) w1)"
  have "consistent ?L"
    by (rule generate_loop_consistent[OF consistent_start])
  then show ?thesis
    using consistent_fields[OF handleGenerate_run(1,2,3)[OF run refl, where v=v]]
    by simp
qed

lemma handleGenerate_count:
  "int (attemptCount (handleGenerate e inp v w)) \<le> max 0 (min (candidateCount inp) 3)"
proof (cases rule: handleGenerate_cases[where inp=inp and e=e and w=w])
  case idle
  then show ?thesis
    using handleGenerate_idle[where inp=inp and e=e and w=w and v=v] by simp
next
  case (run f b64 w1)
  show ?thesis
    using handleGenerate_run(2)[OF run, where v=v, OF refl]
      generate_loop_count[of "start (reset v) w1" 0 e "optimizedPrompt inp" "file_type f" b64
        "min (candidateCount inp) 3"]
    by (simp add: start_def)
qed

lemma handleGenerate_part001_consistent: "consistent (handleGenerate_part001 e inp v w)"
proof (cases rule: handleGenerate_part001_cases[where inp=inp and e=e and w=w and v=v])
  case idle
  then show ?thesis
    using handleGenerate_part001_idle[where inp=inp and e=e and w=w and v=v] by (simp add: consistent_def)
next
  case (run f b64 w1 r L)
  have "consistent L"
    using generate_loop_part001_consistent[OF consistent_start, of e "optimizedPrompt inp"
        "file_type f" b64 "candidateCount inp" "reset v" w1] run(4)
    by simp
  then show ?thesis
    using consistent_fields[OF handleGenerate_part001_run(1,2,3)[OF run]]
    by simp
qed

lemma handleGenerate_part001_count:
  "int (attemptCount (handleGenerate_part001 e inp v w)) \<le> max 0 (candidateCount inp * 2)
   \<and> int (length (newGeneratedImages (handleGenerate_part001 e inp v w)))
       \<le> max 0 (candidateCount inp)"
proof (cases rule: handleGenerate_part001_cases[where inp=inp and e=e and w=w and v=v])
  case idle
  then show ?thesis
    using handleGenerate_part001_idle[where inp=inp and e=e and w=w and v=v] by simp
next
  case (run f b64 w1 r L)
  show ?thesis
    using handleGenerate_part001_run(1,2)[OF run]
      generate_loop_part001_bounds[of "start (reset v) w1" "candidateCount inp" e
        "optimizedPrompt inp" "file_type f" b64] run(4)
    by (simp add: start_def)
qed

lemma consistent_length:
  "consistent s \<Longrightarrow> length (newGeneratedImages s) \<le> attemptCount s"
  using length_produced[of "attemptLog s"] by (simp add: consistent_def)

text \<open>
  Claim C1. For a target count from 1 to 3 and whatever the environment answers, a run of
  \<^verbatim>\<open>handleGenerate\<close> (in both variants) makes at most twice the target count of attempts
  and collects at most the target count of images; the log has one entry per attempt,
  numbered 1, 2, ... in the order of the attempts, and the collected images are exactly
  the successes of the log, in the order of the log.
\<close>

theorem handleGenerate_budget:
  assumes "1 \<le> candidateCount inp" and "candidateCount inp \<le> 3"
  shows "int (attemptCount (handleGenerate e inp v w)) \<le> 2 * candidateCount inp
       \<and> int (length (newGeneratedImages (handleGenerate e inp v w))) \<le> candidateCount inp
       \<and> consistent (handleGenerate e inp v w)
       \<and> int (attemptCount (handleGenerate_part001 e inp v w)) \<le> 2 * candidateCount inp
       \<and> int (length (newGeneratedImages (handleGenerate_part001 e inp v w)))
           \<le> candidateCount inp
       \<and> consistent (handleGenerate_part001 e inp v w)"
proof -
  have a: "int (attemptCount (handleGenerate e inp v w)) \<le> candidateCount inp"
    using handleGenerate_count[of e inp v w] assms by simp
  have "int (length (newGeneratedImages (handleGenerate e inp v w)))
          \<le> int (attemptCount (handleGenerate e inp v w))"
    using consistent_length[OF handleGenerate_consistent[of e inp v w]] by simp
  with a have b: "int (length (newGeneratedImages (handleGenerate e inp v w)))
                    \<le> candidateCount inp"
    by simp
  from a assms have a': "int (attemptCount (handleGenerate e inp v w)) \<le> 2 * candidateCount inp"
    by simp
  have c: "int (attemptCount (handleGenerate_part001 e inp v w)) \<le> 2 * candidateCount inp"
    "int (length (newGeneratedImages (handleGenerate_part001 e inp v w))) \<le> candidateCount inp"
    using handleGenerate_part001_count[of e inp v w] assms by simp_all
  from a' b c handleGenerate_consistent handleGenerate_part001_consistent show ?thesis
    by blast
qed


text \<open>
  The theorem at a target count of 3 and an environment whose third answer is the first
  with an image.
\<close>

theorem handleGenerate_budget_witness:
  "1 \<le> candidateCount (golden_armor 3)
   \<and> candidateCount (golden_armor 3) \<le> 3
   \<and> int (attemptCount (handleGenerate two_misses (golden_armor 3) blank_ui idle_world))
       \<le> 2 * candidateCount (golden_armor 3)
   \<and> int (length (newGeneratedImages
                    (handleGenerate two_misses (golden_armor 3) blank_ui idle_world)))
       \<le> candidateCount (golden_armor 3)
   \<and> consistent (handleGenerate two_misses (golden_armor 3) blank_ui idle_world)
   \<and> int (attemptCount (handleGenerate_part001 two_misses (golden_armor 3) blank_ui idle_world))
       \<le> 2 * candidateCount (golden_armor 3)
   \<and> int (length (newGeneratedImages
                    (handleGenerate_part001 two_misses (golden_armor 3) blank_ui idle_world)))
       \<le> candidateCount (golden_armor 3)
   \<and> consistent (handleGenerate_part001 two_misses (golden_armor 3) blank_ui idle_world)
   \<and> attemptLog (handleGenerate two_misses (golden_armor 3) blank_ui idle_world)
       = [(1, NoImage (Some ''NO_IMAGE'')), (2, NoImage (Some ''NO_IMAGE'')),
          (3, Produced ''data:image/png;base64,QUJD'')]
   \<and> newGeneratedImages (handleGenerate two_misses (golden_armor 3) blank_ui idle_world)
       = [''data:image/png;base64,QUJD'']"
proof -
  have lo: "1 \<le> candidateCount (golden_armor 3)" and hi: "candidateCount (golden_armor 3) \<le> 3"
    by (simp_all add: golden_armor_def)
  have log: "attemptLog (handleGenerate two_misses (golden_armor 3) blank_ui idle_world)
       = [(1, NoImage (Some ''NO_IMAGE'')), (2, NoImage (Some ''NO_IMAGE'')),
          (3, Produced ''data:image/png;base64,QUJD'')]"
    by (simp add: session_defs wrapper_defs encode_defs classify_defs
          scenario_defs)
  have imgs: "newGeneratedImages (handleGenerate two_misses (golden_armor 3) blank_ui idle_world)
       = [''data:image/png;base64,QUJD'']"
    by (simp add: session_defs wrapper_defs encode_defs classify_defs
          scenario_defs)
  from lo hi log imgs
    handleGenerate_budget[OF lo hi, of two_misses blank_ui idle_world]
  show ?thesis
    by blast
qed

subsection \<open>One read of the reference image\<close>

lemma fileToBase64_started:
  "fileToBase64 e f w = (Inr b64, w1) \<Longrightarrow> w1 = started f w"
  by (auto simp add: fileToBase64_def readAsDataURL_def split: if_splits)

lemma fileToBase64_part001_started:
  "fileToBase64_part001 e f w = (Inr b64, w1) \<Longrightarrow> w1 = started f w"
  by (auto simp add: fileToBase64_part001_def readAsDataURL_def split: if_splits)

lemma extends_after_read:
  assumes "extends ftype b64 (started f w) w'"
  shows "take (Suc (length (trace w))) (trace w') = trace w @ [EvRead f]
         \<and> list_all (carries ftype b64) (drop (Suc (length (trace w))) (trace w'))
         \<and> nread w' = Suc (nread w)"
proof -
  obtain evs where "trace w' = trace (started f w) @ evs" "list_all (carries ftype b64) evs"
    "nread w' = nread (started f w)"
    using assms by (auto simp add: extends_iff)
  then show ?thesis
    by (simp add: started_def)
qed

text \<open>
  Claim C8. In both variants, a run of \<^verbatim>\<open>handleGenerate\<close> that passes the validation reads
  the reference image once: when \<^verbatim>\<open>fileToBase64\<close> resolves, the read is the first effect
  of the run, every effect after it is a wait or a request, never another read, and every
  request carries the type of the file and the one encoded value; when \<^verbatim>\<open>fileToBase64\<close>
  rejects, the run makes no attempt and has no further effect.
\<close>

theorem handleGenerate_reads_once:
  "(referenceImage inp = Some f \<and> \<not> (mode inp = Generate \<and> trim (prompt inp) = [])
      \<and> fileToBase64 e f w = (Inr b64, w1) \<longrightarrow>
        take (Suc (length (trace w))) (trace (outside (handleGenerate e inp v w)))
          = trace w @ [EvRead f]
      \<and> list_all (carries (file_type f) b64)
          (drop (Suc (length (trace w))) (trace (outside (handleGenerate e inp v w))))
      \<and> nread (outside (handleGenerate e inp v w)) = Suc (nread w))
   \<and> (referenceImage inp = Some f \<and> \<not> (mode inp = Generate \<and> prompt inp = [])
      \<and> fileToBase64_part001 e f w = (Inr b64, w1) \<longrightarrow>
        take (Suc (length (trace w))) (trace (outside (handleGenerate_part001 e inp v w)))
          = trace w @ [EvRead f]
      \<and> list_all (carries (file_type f) b64)
          (drop (Suc (length (trace w))) (trace (outside (handleGenerate_part001 e inp v w))))
      \<and> nread (outside (handleGenerate_part001 e inp v w)) = Suc (nread w))
   \<and> (referenceImage inp = Some f \<and> \<not> (mode inp = Generate \<and> trim (prompt inp) = [])
      \<and> fileToBase64 e f w = (Inl err, w1) \<longrightarrow>
        outside (handleGenerate e inp v w) = w1 \<and> attemptCount (handleGenerate e inp v w) = 0)
   \<and> (referenceImage inp = Some f \<and> \<not> (mode inp = Generate \<and> prompt inp = [])
      \<and> fileToBase64_part001 e f w = (Inl err, w1) \<longrightarrow>
        outside (handleGenerate_part001 e inp v w) = w1
      \<and> attemptCount (handleGenerate_part001 e inp v w) = 0)"
proof (intro conjI impI)
  assume a: "referenceImage inp = Some f \<and> \<not> (mode inp = Generate \<and> trim (prompt inp) = [])
      \<and> fileToBase64 e f w = (Inr b64, w1)"
  let ?L = "generate_loop e (optimizedPrompt inp) (file_type f) b64
              (min (candidateCount inp) 3) 0 (start (reset v) w1)"
  have out: "outside (handleGenerate e inp v w) = outside ?L"
    using handleGenerate_run(4)[of inp f e w b64 w1 ?L v] a by simp
  have "extends (file_type f) b64 (started f w) (outside ?L)"
    using generate_loop_extends[of "file_type f" b64 "start (reset v) w1" e "optimizedPrompt inp"
        "min (candidateCount inp) 3" 0] fileToBase64_started[of e f w b64 w1] a
    by (simp add: start_def)
  note r = extends_after_read[OF this]
  from r show "take (Suc (length (trace w))) (trace (outside (handleGenerate e inp v w)))
      = trace w @ [EvRead f]"
    by (simp add: out)
  from r show "list_all (carries (file_type f) b64)
      (drop (Suc (length (trace w))) (trace (outside (handleGenerate e inp v w))))"
    by (simp add: out)
  from r show "nread (outside (handleGenerate e inp v w)) = Suc (nread w)"
    by (simp add: out)
next
  assume a: "referenceImage inp = Some f \<and> \<not> (mode inp = Generate \<and> prompt inp = [])
      \<and> fileToBase64_part001 e f w = (Inr b64, w1)"
  obtain r L where loop: "generate_loop_part001 e (optimizedPrompt inp) (file_type f) b64
      (candidateCount inp) (start (reset v) w1) = (r, L)"
    by (cases "generate_loop_part001 e (optimizedPrompt inp) (file_type f) b64
      (candidateCount inp) (start (reset v) w1)")
  have out: "outside (handleGenerate_part001 e inp v w) = outside L"
    using handleGenerate_part001_run(4)[of inp f e w b64 w1 v r L] a loop by simp
  have "extends (file_type f) b64 (started f w) (outside L)"
    using generate_loop_part001_extends[of "file_type f" b64 "start (reset v) w1" e
        "optimizedPrompt inp" "candidateCount inp"] fileToBase64_part001_started[of e f w b64 w1]
      a loop
    by (simp add: start_def)
  note r = extends_after_read[OF this]
  from r show "take (Suc (length (trace w))) (trace (outside (handleGenerate_part001 e inp v w)))
      = trace w @ [EvRead f]"
    by (simp add: out)
  from r show "list_all (carries (file_type f) b64)
      (drop (Suc (length (trace w))) (trace (outside (handleGenerate_part001 e inp v w))))"
    by (simp add: out)
  from r show "nread (outside (handleGenerate_part001 e inp v w)) = Suc (nread w)"
    by (simp add: out)
next
  assume a: "referenceImage inp = Some f \<and> \<not> (mode inp = Generate \<and> trim (prompt inp) = [])
      \<and> fileToBase64 e f w = (Inl err, w1)"
  then have b: "\<not> (mode inp = Generate \<and> trim (prompt inp) = [])"
    by simp
  from a show "outside (handleGenerate e inp v w) = w1"
    by (simp add: handleGenerate_def if_not_P[OF b] finally_block_def start_def)
  from a show "attemptCount (handleGenerate e inp v w) = 0"
    by (simp add: handleGenerate_def if_not_P[OF b] finally_block_def start_def)
next
  assume a: "referenceImage inp = Some f \<and> \<not> (mode inp = Generate \<and> prompt inp = [])
      \<and> fileToBase64_part001 e f w = (Inl err, w1)"
  then show "outside (handleGenerate_part001 e inp v w) = w1"
    by (cases "mode inp")
       (simp_all add: handleGenerate_part001_def finally_block_def start_def)
  from a show "attemptCount (handleGenerate_part001 e inp v w) = 0"
    by (cases "mode inp")
       (simp_all add: handleGenerate_part001_def finally_block_def start_def)
qed

text \<open>
  The theorem at a run of three attempts, whose effects are listed, and at a run whose
  read fails.
\<close>

theorem handleGenerate_reads_once_witness:
  "referenceImage (golden_armor 3) = Some photo
   \<and> \<not> (mode (golden_armor 3) = Generate \<and> trim (prompt (golden_armor 3)) = [])
   \<and> fileToBase64 two_misses photo idle_world = (Inr (Some ''QUJD''), started photo idle_world)
   \<and> take (Suc (length (trace idle_world)))
        (trace (outside (handleGenerate two_misses (golden_armor 3) blank_ui idle_world)))
       = trace idle_world @ [EvRead photo]
   \<and> list_all (carries (file_type photo) (Some ''QUJD''))
        (drop (Suc (length (trace idle_world)))
           (trace (outside (handleGenerate two_misses (golden_armor 3) blank_ui idle_world))))
   \<and> nread (outside (handleGenerate two_misses (golden_armor 3) blank_ui idle_world))
       = Suc (nread idle_world)
   \<and> \<not> (mode (golden_armor 3) = Generate \<and> prompt (golden_armor 3) = [])
   \<and> fileToBase64_part001 two_misses photo idle_world
       = (Inr (Some ''QUJD''), started photo idle_world)
   \<and> take (Suc (length (trace idle_world)))
        (trace (outside (handleGenerate_part001 two_misses (golden_armor 3) blank_ui idle_world)))
       = trace idle_world @ [EvRead photo]
   \<and> list_all (carries (file_type photo) (Some ''QUJD''))
        (drop (Suc (length (trace idle_world)))
           (trace (outside
              (handleGenerate_part001 two_misses (golden_armor 3) blank_ui idle_world))))
   \<and> nread (outside (handleGenerate_part001 two_misses (golden_armor 3) blank_ui idle_world))
       = Suc (nread idle_world)
   \<and> fileToBase64 unreadable photo idle_world = (Inl ReaderError, started photo idle_world)
   \<and> outside (handleGenerate unreadable (golden_armor 3) blank_ui idle_world)
       = started photo idle_world
   \<and> attemptCount (handleGenerate unreadable (golden_armor 3) blank_ui idle_world) = 0
   \<and> fileToBase64_part001 unreadable photo idle_world
       = (Inl ReaderError, started photo idle_world)
   \<and> outside (handleGenerate_part001 unreadable (golden_armor 3) blank_ui idle_world)
       = started photo idle_world
   \<and> attemptCount (handleGenerate_part001 unreadable (golden_armor 3) blank_ui idle_world) = 0
   \<and> trace (outside (handleGenerate two_misses (golden_armor 3) blank_ui idle_world))
       = [EvRead photo,
          EvFetch (make_payload ''golden armor, 8k'' 1 None ''image/png'' (Some ''QUJD'')),
          EvSleep 2000,
          EvFetch (make_payload ''golden armor, 8k'' 2 None ''image/png'' (Some ''QUJD'')),
          EvSleep 2000,
          EvFetch (make_payload ''golden armor, 8k'' 3 None ''image/png'' (Some ''QUJD''))]"
proof -
  have ref: "referenceImage (golden_armor 3) = Some photo"
    by (simp add: golden_armor_def)
  have ok: "\<not> (mode (golden_armor 3) = Generate \<and> trim (prompt (golden_armor 3)) = [])"
    by (simp add: golden_armor_def trim_def js_whitespace_def)
  have ok': "\<not> (mode (golden_armor 3) = Generate \<and> prompt (golden_armor 3) = [])"
    by (simp add: golden_armor_def)
  have enc: "fileToBase64 two_misses photo idle_world
      = (Inr (Some ''QUJD''), started photo idle_world)"
    by (simp add: fileToBase64_def readAsDataURL_def MAX_IMAGE_SIZE_def photo_def two_misses_def
          scripted_def index_def)
  have enc': "fileToBase64_part001 two_misses photo idle_world
      = (Inr (Some ''QUJD''), started photo idle_world)"
    by (simp add: fileToBase64_part001_def readAsDataURL_def photo_def two_misses_def
          scripted_def index_def)
  have run: "trace (outside (handleGenerate two_misses (golden_armor 3) blank_ui idle_world))
       = [EvRead photo,
          EvFetch (make_payload ''golden armor, 8k'' 1 None ''image/png'' (Some ''QUJD'')),
          EvSleep 2000,
          EvFetch (make_payload ''golden armor, 8k'' 2 None ''image/png'' (Some ''QUJD'')),
          EvSleep 2000,
          EvFetch (make_payload ''golden armor, 8k'' 3 None ''image/png'' (Some ''QUJD''))]"
    by (simp add: session_defs wrapper_defs encode_defs classify_defs
          scenario_defs)
  have bad: "fileToBase64 unreadable photo idle_world
      = (Inl ReaderError, started photo idle_world)"
    by (simp add: fileToBase64_def readAsDataURL_def MAX_IMAGE_SIZE_def photo_def unreadable_def)
  have bad': "fileToBase64_part001 unreadable photo idle_world
      = (Inl ReaderError, started photo idle_world)"
    by (simp add: fileToBase64_part001_def readAsDataURL_def photo_def unreadable_def)
  note new = handleGenerate_reads_once[THEN conjunct1, THEN mp, OF conjI[OF ref conjI[OF ok enc]],
               of blank_ui]
  note old = handleGenerate_reads_once[THEN conjunct2, THEN conjunct1, THEN mp,
               OF conjI[OF ref conjI[OF ok' enc']], of blank_ui]
  note new_bad = handleGenerate_reads_once[THEN conjunct2, THEN conjunct2, THEN conjunct1,
               THEN mp, OF conjI[OF ref conjI[OF ok bad]], of blank_ui]
  note old_bad = handleGenerate_reads_once[THEN conjunct2, THEN conjunct2, THEN conjunct2,
               THEN mp, OF conjI[OF ref conjI[OF ok' bad']], of blank_ui]
  from ref ok ok' enc enc' run new old bad bad' new_bad old_bad show ?thesis
    by blast
qed

subsection \<open>An attempt whose transport fails\<close>

lemma generate_loop_step:
  "int i < target \<and> int (attemptCount s) < target * 2 \<Longrightarrow>
     generate_loop e base ftype b64 target i s =
       generate_loop e base ftype b64 target (Suc i) (loop_body e base ftype b64 i s)"
  by (subst generate_loop.simps) (rule if_P)

text \<open>
  Claim C5, as amended. In \<^verbatim>\<open>ImageStudio.jsx\<close> an attempt whose call of the wrapper throws is
  caught inside the loop body: it leaves the session as an attempt without an image
  does, with the images collected so far, the published images and the error message
  untouched and only the log entry different; a run that passes the validation and
  encodes the image always makes all its \<open>min candidateCount 3\<close> attempts and ends with
  the message for "nothing generated" or with no error, never with the message of the
  outer \<^verbatim>\<open>catch\<close>. In \<^verbatim>\<open>part_001\<close> there is no \<^verbatim>\<open>try\<close> around the attempt: when the wrapper
  throws, the loop ends at once with that exception, and the run ends with the message
  for a critical error; the images published before stay published.
\<close>

theorem handleGenerate_transport_failure:
  "(fst (fetchWithRetry e (make_payload base (i + 1) None ftype b64) MAX_RETRIES (before i s))
      = Inl err \<longrightarrow>
        loop_body e base ftype b64 i s =
          s\<lparr>attemptCount := Suc (attemptCount s),
            attemptLog := attemptLog s @ [(Suc (attemptCount s), Failed err)],
            view := (view s)\<lparr>currentGeneratingIndex := i + 1\<rparr>,
            outside := snd (fetchWithRetry e (make_payload base (i + 1) None ftype b64)
                              MAX_RETRIES (before i s))\<rparr>)
   \<and> (fst (fetchWithRetry e (make_payload base (i + 1) None ftype b64) MAX_RETRIES (before i s))
      = Inr (Some r) \<and> body_json r \<noteq> JsonRejects \<and> result_image (body_json r) = None \<longrightarrow>
        loop_body e base ftype b64 i s =
          s\<lparr>attemptCount := Suc (attemptCount s),
            attemptLog := attemptLog s @
              [(Suc (attemptCount s), NoImage (result_finishReason (body_json r)))],
            view := (view s)\<lparr>currentGeneratingIndex := i + 1\<rparr>,
            outside := snd (fetchWithRetry e (make_payload base (i + 1) None ftype b64)
                              MAX_RETRIES (before i s))\<rparr>)
   \<and> (referenceImage inp = Some f \<and> \<not> (mode inp = Generate \<and> trim (prompt inp) = [])
      \<and> fileToBase64 e f w = (Inr b64, w1) \<longrightarrow>
        attemptCount (handleGenerate e inp v w) = nat (min (candidateCount inp) 3)
      \<and> error (view (handleGenerate e inp v w)) =
          (if newGeneratedImages (handleGenerate e inp v w) = []
           then Some NothingGenerated else None))
   \<and> (fst (fetchWithRetry_part001 e
              (make_payload base (length (newGeneratedImages s) + 1)
                 (Some (Suc (attemptCount s))) ftype b64) 3 (outside s)) = Inl err
      \<and> int (length (newGeneratedImages s)) < target \<and> int (attemptCount s) < target * 2 \<longrightarrow>
        generate_loop_part001 e base ftype b64 target s =
          (Some err,
           s\<lparr>attemptCount := Suc (attemptCount s),
             attemptLog := attemptLog s @ [(Suc (attemptCount s), Failed err)],
             view := (view s)\<lparr>currentGeneratingIndex := length (newGeneratedImages s) + 1\<rparr>,
             outside := snd (fetchWithRetry_part001 e
                               (make_payload base (length (newGeneratedImages s) + 1)
                                  (Some (Suc (attemptCount s))) ftype b64) 3 (outside s))\<rparr>))
   \<and> (referenceImage inp = Some f \<and> \<not> (mode inp = Generate \<and> prompt inp = [])
      \<and> fileToBase64_part001 e f w = (Inr b64, w1)
      \<and> fst (generate_loop_part001 e (optimizedPrompt inp) (file_type f) b64
                (candidateCount inp) (start (reset v) w1)) = Some err \<longrightarrow>
        error (view (handleGenerate_part001 e inp v w)) = Some (Critical err)
      \<and> generatedImages (view (handleGenerate_part001 e inp v w)) =
          newGeneratedImages (handleGenerate_part001 e inp v w))"
proof (intro conjI impI)
  assume "fst (fetchWithRetry e (make_payload base (i + 1) None ftype b64) MAX_RETRIES
                 (before i s)) = Inl err"
  then show "loop_body e base ftype b64 i s =
      s\<lparr>attemptCount := Suc (attemptCount s),
        attemptLog := attemptLog s @ [(Suc (attemptCount s), Failed err)],
        view := (view s)\<lparr>currentGeneratingIndex := i + 1\<rparr>,
        outside := snd (fetchWithRetry e (make_payload base (i + 1) None ftype b64)
                          MAX_RETRIES (before i s))\<rparr>"
    by (simp add: loop_body_eq settle_def attempt_outcome_of_def)
next
  assume "fst (fetchWithRetry e (make_payload base (i + 1) None ftype b64) MAX_RETRIES
                 (before i s)) = Inr (Some r)
      \<and> body_json r \<noteq> JsonRejects \<and> result_image (body_json r) = None"
  then show "loop_body e base ftype b64 i s =
      s\<lparr>attemptCount := Suc (attemptCount s),
        attemptLog := attemptLog s @
          [(Suc (attemptCount s), NoImage (result_finishReason (body_json r)))],
        view := (view s)\<lparr>currentGeneratingIndex := i + 1\<rparr>,
        outside := snd (fetchWithRetry e (make_payload base (i + 1) None ftype b64)
                          MAX_RETRIES (before i s))\<rparr>"
    by (cases "body_json r") (simp_all add: loop_body_eq settle_def attempt_outcome_of_def)
next
  assume a: "referenceImage inp = Some f \<and> \<not> (mode inp = Generate \<and> trim (prompt inp) = [])
      \<and> fileToBase64 e f w = (Inr b64, w1)"
  let ?L = "generate_loop e (optimizedPrompt inp) (file_type f) b64
              (min (candidateCount inp) 3) 0 (start (reset v) w1)"
  have run: "attemptCount (handleGenerate e inp v w) = attemptCount ?L"
    "newGeneratedImages (handleGenerate e inp v w) = newGeneratedImages ?L"
    "error (view (handleGenerate e inp v w)) =
       (if newGeneratedImages ?L = [] then Some NothingGenerated else None)"
    using handleGenerate_run(1,2,6)[of inp f e w b64 w1 ?L v] a by simp_all
  show "attemptCount (handleGenerate e inp v w) = nat (min (candidateCount inp) 3)"
    using generate_loop_count[of "start (reset v) w1" 0 e "optimizedPrompt inp" "file_type f" b64
        "min (candidateCount inp) 3"]
    by (simp add: run start_def)
  show "error (view (handleGenerate e inp v w)) =
      (if newGeneratedImages (handleGenerate e inp v w) = []
       then Some NothingGenerated else None)"
    by (simp add: run)
next
  assume a: "fst (fetchWithRetry_part001 e
              (make_payload base (length (newGeneratedImages s) + 1)
                 (Some (Suc (attemptCount s))) ftype b64) 3 (outside s)) = Inl err
      \<and> int (length (newGeneratedImages s)) < target \<and> int (attemptCount s) < target * 2"
  then have c: "int (length (newGeneratedImages s)) < target \<and> int (attemptCount s) < target * 2"
    by simp
  from a show "generate_loop_part001 e base ftype b64 target s =
      (Some err,
       s\<lparr>attemptCount := Suc (attemptCount s),
         attemptLog := attemptLog s @ [(Suc (attemptCount s), Failed err)],
         view := (view s)\<lparr>currentGeneratingIndex := length (newGeneratedImages s) + 1\<rparr>,
         outside := snd (fetchWithRetry_part001 e
                           (make_payload base (length (newGeneratedImages s) + 1)
                              (Some (Suc (attemptCount s))) ftype b64) 3 (outside s))\<rparr>)"
    by (simp add: generate_loop_part001_step[OF c] loop_body_part001_eq settle_part001_def
          attempt_outcome_of_part001_def)
next
  assume a: "referenceImage inp = Some f \<and> \<not> (mode inp = Generate \<and> prompt inp = [])
      \<and> fileToBase64_part001 e f w = (Inr b64, w1)
      \<and> fst (generate_loop_part001 e (optimizedPrompt inp) (file_type f) b64
                (candidateCount inp) (start (reset v) w1)) = Some err"
  obtain L where loop: "generate_loop_part001 e (optimizedPrompt inp) (file_type f) b64
      (candidateCount inp) (start (reset v) w1) = (Some err, L)"
    using a by (cases "generate_loop_part001 e (optimizedPrompt inp) (file_type f) b64
      (candidateCount inp) (start (reset v) w1)") simp
  note run = handleGenerate_part001_run(1,5,6)[of inp f e w b64 w1 v "Some err" L]
  from a loop show "error (view (handleGenerate_part001 e inp v w)) = Some (Critical err)"
    using run(3) by simp
  from a loop show "generatedImages (view (handleGenerate_part001 e inp v w)) =
      newGeneratedImages (handleGenerate_part001 e inp v w)"
    using run(1,2) by simp
qed

text \<open>
  The claim as first stated fails on \<^verbatim>\<open>part_001\<close>: with a target count of 3, the wrapper
  throws in attempt 1 after three requests, and the run ends there, with one attempt and
  the message for a critical error, although the next requests would have been answered.
\<close>

theorem handleGenerate_transport_failure_counterexample:
  "fetchWithRetry_part001 outage
       (make_payload ''golden armor, 8k'' 1 (Some 1) ''image/png'' (Some ''QUJD'')) 3
       (started photo idle_world)
     = (Inl NetworkError,
        \<lparr>trace = [EvRead photo,
                  EvFetch (make_payload ''golden armor, 8k'' 1 (Some 1) ''image/png'' (Some ''QUJD'')),
                  EvFetch (make_payload ''golden armor, 8k'' 1 (Some 1) ''image/png'' (Some ''QUJD'')),
                  EvFetch (make_payload ''golden armor, 8k'' 1 (Some 1) ''image/png'' (Some ''QUJD''))],
         nfetch = 3, nrandom = 0, nread = 1\<rparr>)
   \<and> attemptLog (handleGenerate_part001 outage (golden_armor 3) blank_ui idle_world)
     = [(1, Failed NetworkError)]
   \<and> attemptCount (handleGenerate_part001 outage (golden_armor 3) blank_ui idle_world) = 1
   \<and> error (view (handleGenerate_part001 outage (golden_armor 3) blank_ui idle_world))
     = Some (Critical NetworkError)
   \<and> nfetch (outside (handleGenerate_part001 outage (golden_armor 3) blank_ui idle_world)) = 3"
  by (simp add: session_part001_defs wrapper_part001_defs encode_defs classify_defs scenario_defs)


text \<open>
  The theorem at a first attempt whose three requests get no answer, and at a first
  attempt that is answered without an image: \<^verbatim>\<open>ImageStudio.jsx\<close> goes on to attempts 2 and
  3, \<^verbatim>\<open>part_001\<close> stops.
\<close>

theorem handleGenerate_transport_failure_witness:
  "fst (fetchWithRetry outage
          (make_payload ''golden armor, 8k'' (0 + 1) None ''image/png'' (Some ''QUJD''))
          MAX_RETRIES (before 0 (start (reset blank_ui) (started photo idle_world))))
     = Inl NetworkError
   \<and> loop_body outage ''golden armor, 8k'' ''image/png'' (Some ''QUJD'') 0
         (start (reset blank_ui) (started photo idle_world))
     = (start (reset blank_ui) (started photo idle_world))
         \<lparr>attemptCount := Suc (attemptCount (start (reset blank_ui) (started photo idle_world))),
          attemptLog := attemptLog (start (reset blank_ui) (started photo idle_world)) @
            [(Suc (attemptCount (start (reset blank_ui) (started photo idle_world))),
              Failed NetworkError)],
          view := (view (start (reset blank_ui) (started photo idle_world)))
                    \<lparr>currentGeneratingIndex := 0 + 1\<rparr>,
          outside := snd (fetchWithRetry outage
                            (make_payload ''golden armor, 8k'' (0 + 1) None ''image/png''
                               (Some ''QUJD''))
                            MAX_RETRIES
                            (before 0 (start (reset blank_ui) (started photo idle_world))))\<rparr>
   \<and> (fst (fetchWithRetry two_misses
          (make_payload ''golden armor, 8k'' (0 + 1) None ''image/png'' (Some ''QUJD''))
          MAX_RETRIES (before 0 (start (reset blank_ui) (started photo idle_world))))
        = Inr (Some (reply 200 no_image_body))
      \<and> body_json (reply 200 no_image_body) \<noteq> JsonRejects
      \<and> result_image (body_json (reply 200 no_image_body)) = None)
   \<and> loop_body two_misses ''golden armor, 8k'' ''image/png'' (Some ''QUJD'') 0
         (start (reset blank_ui) (started photo idle_world))
     = (start (reset blank_ui) (started photo idle_world))
         \<lparr>attemptCount := Suc (attemptCount (start (reset blank_ui) (started photo idle_world))),
          attemptLog := attemptLog (start (reset blank_ui) (started photo idle_world)) @
            [(Suc (attemptCount (start (reset blank_ui) (started photo idle_world))),
              NoImage (result_finishReason (body_json (reply 200 no_image_body))))],
          view := (view (start (reset blank_ui) (started photo idle_world)))
                    \<lparr>currentGeneratingIndex := 0 + 1\<rparr>,
          outside := snd (fetchWithRetry two_misses
                            (make_payload ''golden armor, 8k'' (0 + 1) None ''image/png''
                               (Some ''QUJD''))
                            MAX_RETRIES
                            (before 0 (start (reset blank_ui) (started photo idle_world))))\<rparr>
   \<and> (referenceImage (golden_armor 3) = Some photo
      \<and> \<not> (mode (golden_armor 3) = Generate \<and> trim (prompt (golden_armor 3)) = [])
      \<and> fileToBase64 outage photo idle_world = (Inr (Some ''QUJD''), started photo idle_world))
   \<and> (attemptCount (handleGenerate outage (golden_armor 3) blank_ui idle_world)
        = nat (min (candidateCount (golden_armor 3)) 3)
      \<and> error (view (handleGenerate outage (golden_armor 3) blank_ui idle_world))
        = (if newGeneratedImages (handleGenerate outage (golden_armor 3) blank_ui idle_world) = []
           then Some NothingGenerated else None))
   \<and> attemptLog (handleGenerate outage (golden_armor 3) blank_ui idle_world)
     = [(1, Failed NetworkError), (2, Produced ''data:image/png;base64,QUJD''),
        (3, Produced ''data:image/png;base64,QUJD'')]
   \<and> (fst (fetchWithRetry_part001 outage
              (make_payload ''golden armor, 8k''
                 (length (newGeneratedImages (start (reset blank_ui) (started photo idle_world)))
                  + 1)
                 (Some (Suc (attemptCount (start (reset blank_ui) (started photo idle_world)))))
                 ''image/png'' (Some ''QUJD''))
              3 (outside (start (reset blank_ui) (started photo idle_world))))
        = Inl NetworkError
      \<and> int (length (newGeneratedImages (start (reset blank_ui) (started photo idle_world)))) < 3
      \<and> int (attemptCount (start (reset blank_ui) (started photo idle_world))) < 3 * 2)
   \<and> fst (generate_loop_part001 outage ''golden armor, 8k'' ''image/png'' (Some ''QUJD'') 3
            (start (reset blank_ui) (started photo idle_world)))
     = Some NetworkError
   \<and> attemptLog (snd (generate_loop_part001 outage ''golden armor, 8k'' ''image/png''
                        (Some ''QUJD'') 3 (start (reset blank_ui) (started photo idle_world))))
     = [(1, Failed NetworkError)]
   \<and> (\<not> (mode (golden_armor 3) = Generate \<and> prompt (golden_armor 3) = [])
      \<and> fileToBase64_part001 outage photo idle_world
        = (Inr (Some ''QUJD''), started photo idle_world)
      \<and> fst (generate_loop_part001 outage (optimizedPrompt (golden_armor 3)) (file_type photo)
                (Some ''QUJD'') (candidateCount (golden_armor 3))
                (start (reset blank_ui) (started photo idle_world)))
        = Some NetworkError)
   \<and> (error (view (handleGenerate_part001 outage (golden_armor 3) blank_ui idle_world))
        = Some (Critical NetworkError)
      \<and> generatedImages (view (handleGenerate_part001 outage (golden_armor 3) blank_ui idle_world))
        = newGeneratedImages (handleGenerate_part001 outage (golden_armor 3) blank_ui idle_world))"
proof -
  let ?s = "start (reset blank_ui) (started photo idle_world)"
  have thrown: "fst (fetchWithRetry outage
          (make_payload ''golden armor, 8k'' (0 + 1) None ''image/png'' (Some ''QUJD''))
          MAX_RETRIES (before 0 ?s)) = Inl NetworkError"
    by (simp add: before_def start_def started_def wrapper_defs scenario_defs make_payload_def)
  have missed: "fst (fetchWithRetry two_misses
          (make_payload ''golden armor, 8k'' (0 + 1) None ''image/png'' (Some ''QUJD''))
          MAX_RETRIES (before 0 ?s)) = Inr (Some (reply 200 no_image_body))
      \<and> body_json (reply 200 no_image_body) \<noteq> JsonRejects
      \<and> result_image (body_json (reply 200 no_image_body)) = None"
    by (simp add: before_def start_def started_def wrapper_defs scenario_defs make_payload_def
          classify_defs)
  have ref: "referenceImage (golden_armor 3) = Some photo"
    by (simp add: golden_armor_def)
  have ok: "\<not> (mode (golden_armor 3) = Generate \<and> trim (prompt (golden_armor 3)) = [])"
    by (simp add: golden_armor_def trim_def js_whitespace_def)
  have ok': "\<not> (mode (golden_armor 3) = Generate \<and> prompt (golden_armor 3) = [])"
    by (simp add: golden_armor_def)
  have enc: "fileToBase64 outage photo idle_world
      = (Inr (Some ''QUJD''), started photo idle_world)"
    by (simp add: encode_defs scenario_defs)
  have enc': "fileToBase64_part001 outage photo idle_world
      = (Inr (Some ''QUJD''), started photo idle_world)"
    by (simp add: encode_defs scenario_defs)
  have log: "attemptLog (handleGenerate outage (golden_armor 3) blank_ui idle_world)
     = [(1, Failed NetworkError), (2, Produced ''data:image/png;base64,QUJD''),
        (3, Produced ''data:image/png;base64,QUJD'')]"
    by (simp add: session_defs wrapper_defs encode_defs classify_defs scenario_defs)
  have thrown': "fst (fetchWithRetry_part001 outage
              (make_payload ''golden armor, 8k'' (length (newGeneratedImages ?s) + 1)
                 (Some (Suc (attemptCount ?s))) ''image/png'' (Some ''QUJD''))
              3 (outside ?s)) = Inl NetworkError
      \<and> int (length (newGeneratedImages ?s)) < 3 \<and> int (attemptCount ?s) < 3 * 2"
    by (simp add: start_def started_def wrapper_part001_defs scenario_defs make_payload_def)
  note stops = handleGenerate_transport_failure[THEN conjunct2, THEN conjunct2, THEN conjunct2,
      THEN conjunct1, THEN mp, OF thrown']
  have stop1: "fst (generate_loop_part001 outage ''golden armor, 8k'' ''image/png''
                      (Some ''QUJD'') 3 ?s) = Some NetworkError"
    by (simp add: stops)
  have stop2: "attemptLog (snd (generate_loop_part001 outage ''golden armor, 8k'' ''image/png''
                      (Some ''QUJD'') 3 ?s)) = [(1, Failed NetworkError)]"
    using stops by (simp add: start_def)
  have stop3: "fst (generate_loop_part001 outage (optimizedPrompt (golden_armor 3))
                      (file_type photo) (Some ''QUJD'') (candidateCount (golden_armor 3)) ?s)
               = Some NetworkError"
    using stop1 by (simp add: golden_armor_def photo_def)
  note a = handleGenerate_transport_failure[THEN conjunct1, THEN mp, OF thrown]
  note b = handleGenerate_transport_failure[THEN conjunct2, THEN conjunct1, THEN mp, OF missed]
  note c = handleGenerate_transport_failure[where v=blank_ui, THEN conjunct2, THEN conjunct2,
      THEN conjunct1, THEN mp, OF conjI[OF ref conjI[OF ok enc]]]
  note d = handleGenerate_transport_failure[where v=blank_ui, THEN conjunct2, THEN conjunct2,
      THEN conjunct2, THEN conjunct2, THEN mp, OF conjI[OF ref conjI[OF ok' conjI[OF enc' stop3]]]]
  show ?thesis
    by (intro conjI thrown a missed[THEN conjunct1] missed[THEN conjunct2, THEN conjunct1]
          missed[THEN conjunct2, THEN conjunct2] b ref ok enc c[THEN conjunct1]
          c[THEN conjunct2] log thrown'[THEN conjunct1] thrown'[THEN conjunct2, THEN conjunct1]
          thrown'[THEN conjunct2, THEN conjunct2] stop1 stop2 ok' enc' stop3 d[THEN conjunct1]
          d[THEN conjunct2])
qed

subsection \<open>A session without any image\<close>

text \<open>
  Claim C6, as amended. In \<^verbatim>\<open>ImageStudio.jsx\<close> a run that passes the validation and encodes
  the image, and in which no attempt produces an image, ends with an empty list of
  published images, the error message for "nothing generated" and no success message; a
  run in which some attempt produces an image ends with no error and the success message
  that counts the images. In \<^verbatim>\<open>part_001\<close> a run whose loop ends without an exception ends
  with no error message and no success message, whether or not it has produced an image:
  nothing tells an empty result from a success.
\<close>

theorem handleGenerate_nothing_generated:
  "(referenceImage inp = Some f \<and> \<not> (mode inp = Generate \<and> trim (prompt inp) = [])
      \<and> fileToBase64 e f w = (Inr b64, w1)
      \<and> produced (attemptLog (handleGenerate e inp v w)) = [] \<longrightarrow>
        generatedImages (view (handleGenerate e inp v w)) = []
      \<and> error (view (handleGenerate e inp v w)) = Some NothingGenerated
      \<and> successMessage (view (handleGenerate e inp v w)) = None)
   \<and> (referenceImage inp = Some f \<and> \<not> (mode inp = Generate \<and> trim (prompt inp) = [])
      \<and> fileToBase64 e f w = (Inr b64, w1)
      \<and> produced (attemptLog (handleGenerate e inp v w)) \<noteq> [] \<longrightarrow>
        generatedImages (view (handleGenerate e inp v w))
          = produced (attemptLog (handleGenerate e inp v w))
      \<and> error (view (handleGenerate e inp v w)) = None
      \<and> successMessage (view (handleGenerate e inp v w))
          = Some (Generated (length (produced (attemptLog (handleGenerate e inp v w))))))
   \<and> (referenceImage inp = Some f \<and> \<not> (mode inp = Generate \<and> prompt inp = [])
      \<and> fileToBase64_part001 e f w = (Inr b64, w1)
      \<and> fst (generate_loop_part001 e (optimizedPrompt inp) (file_type f) b64
                (candidateCount inp) (start (reset v) w1)) = None \<longrightarrow>
        generatedImages (view (handleGenerate_part001 e inp v w))
          = produced (attemptLog (handleGenerate_part001 e inp v w))
      \<and> error (view (handleGenerate_part001 e inp v w)) = None
      \<and> successMessage (view (handleGenerate_part001 e inp v w)) = None)"
proof -
  have new: "generatedImages (view (handleGenerate e inp v w))
               = produced (attemptLog (handleGenerate e inp v w))
             \<and> error (view (handleGenerate e inp v w))
               = (if produced (attemptLog (handleGenerate e inp v w)) = []
                  then Some NothingGenerated else None)
             \<and> successMessage (view (handleGenerate e inp v w))
               = (if produced (attemptLog (handleGenerate e inp v w)) = [] then None
                  else Some (Generated (length (produced (attemptLog (handleGenerate e inp v w))))))"
    if a: "referenceImage inp = Some f" "\<not> (mode inp = Generate \<and> trim (prompt inp) = [])"
      "fileToBase64 e f w = (Inr b64, w1)"
  proof -
    let ?L = "generate_loop e (optimizedPrompt inp) (file_type f) b64
                (min (candidateCount inp) 3) 0 (start (reset v) w1)"
    note run = handleGenerate_run[OF a refl, where v=v]
    have "newGeneratedImages (handleGenerate e inp v w)
            = produced (attemptLog (handleGenerate e inp v w))"
      using handleGenerate_consistent[of e inp v w] by (simp add: consistent_def)
    then have "newGeneratedImages ?L = produced (attemptLog (handleGenerate e inp v w))"
      by (simp add: run(1))
    then show ?thesis
      by (simp add: run(5,6,7))
  qed
  have old: "generatedImages (view (handleGenerate_part001 e inp v w))
               = produced (attemptLog (handleGenerate_part001 e inp v w))
             \<and> error (view (handleGenerate_part001 e inp v w)) = None
             \<and> successMessage (view (handleGenerate_part001 e inp v w)) = None"
    if a: "referenceImage inp = Some f" "\<not> (mode inp = Generate \<and> prompt inp = [])"
      "fileToBase64_part001 e f w = (Inr b64, w1)"
      and n: "fst (generate_loop_part001 e (optimizedPrompt inp) (file_type f) b64
                (candidateCount inp) (start (reset v) w1)) = None"
  proof -
    obtain L where loop: "generate_loop_part001 e (optimizedPrompt inp) (file_type f) b64
        (candidateCount inp) (start (reset v) w1) = (None, L)"
      using n by (cases "generate_loop_part001 e (optimizedPrompt inp) (file_type f) b64
        (candidateCount inp) (start (reset v) w1)") simp
    note run = handleGenerate_part001_run[OF a loop]
    have "newGeneratedImages (handleGenerate_part001 e inp v w)
            = produced (attemptLog (handleGenerate_part001 e inp v w))"
      using handleGenerate_part001_consistent[of e inp v w] by (simp add: consistent_def)
    then have "newGeneratedImages L = produced (attemptLog (handleGenerate_part001 e inp v w))"
      by (simp add: run(1))
    then show ?thesis
      by (simp add: run(5,6,7))
  qed
  show ?thesis
    using new old by simp
qed

text \<open>
  The claim as first stated fails on \<^verbatim>\<open>part_001\<close>: six attempts blocked by the safety filter
  end the run with an empty result and neither an error nor any other message.
\<close>

theorem handleGenerate_nothing_generated_counterexample:
  "attemptLog (handleGenerate_part001 blocked (golden_armor 3) blank_ui idle_world)
     = [(1, NoImage (Some ''SAFETY'')), (2, NoImage (Some ''SAFETY'')),
        (3, NoImage (Some ''SAFETY'')), (4, NoImage (Some ''SAFETY'')),
        (5, NoImage (Some ''SAFETY'')), (6, NoImage (Some ''SAFETY''))]
   \<and> view (handleGenerate_part001 blocked (golden_armor 3) blank_ui idle_world)
     = \<lparr>generatedImages = [], error = None, successMessage = None, loading = False,
        currentImageIndex = 0, currentGeneratingIndex = 0\<rparr>"
  by (simp add: session_part001_defs wrapper_part001_defs encode_defs classify_defs scenario_defs)

text \<open>
  The theorem at a run whose answers are all blocked by the safety filter, in both
  variants, and at a run of \<^verbatim>\<open>ImageStudio.jsx\<close> whose third attempt produces an image.
\<close>

theorem handleGenerate_nothing_generated_witness:
  "(referenceImage (golden_armor 3) = Some photo
      \<and> \<not> (mode (golden_armor 3) = Generate \<and> trim (prompt (golden_armor 3)) = [])
      \<and> fileToBase64 blocked photo idle_world = (Inr (Some ''QUJD''), started photo idle_world)
      \<and> produced (attemptLog (handleGenerate blocked (golden_armor 3) blank_ui idle_world)) = [])
   \<and> (generatedImages (view (handleGenerate blocked (golden_armor 3) blank_ui idle_world)) = []
      \<and> error (view (handleGenerate blocked (golden_armor 3) blank_ui idle_world))
        = Some NothingGenerated
      \<and> successMessage (view (handleGenerate blocked (golden_armor 3) blank_ui idle_world))
        = None)
   \<and> attemptLog (handleGenerate blocked (golden_armor 3) blank_ui idle_world)
     = [(1, NoImage (Some ''SAFETY'')), (2, NoImage (Some ''SAFETY'')),
        (3, NoImage (Some ''SAFETY''))]
   \<and> (referenceImage (golden_armor 3) = Some photo
      \<and> \<not> (mode (golden_armor 3) = Generate \<and> trim (prompt (golden_armor 3)) = [])
      \<and> fileToBase64 two_misses photo idle_world
        = (Inr (Some ''QUJD''), started photo idle_world)
      \<and> produced (attemptLog (handleGenerate two_misses (golden_armor 3) blank_ui idle_world))
        \<noteq> [])
   \<and> (generatedImages (view (handleGenerate two_misses (golden_armor 3) blank_ui idle_world))
        = produced (attemptLog (handleGenerate two_misses (golden_armor 3) blank_ui idle_world))
      \<and> error (view (handleGenerate two_misses (golden_armor 3) blank_ui idle_world)) = None
      \<and> successMessage (view (handleGenerate two_misses (golden_armor 3) blank_ui idle_world))
        = Some (Generated (length (produced
            (attemptLog (handleGenerate two_misses (golden_armor 3) blank_ui idle_world))))))
   \<and> (referenceImage (golden_armor 3) = Some photo
      \<and> \<not> (mode (golden_armor 3) = Generate \<and> prompt (golden_armor 3) = [])
      \<and> fileToBase64_part001 blocked photo idle_world
        = (Inr (Some ''QUJD''), started photo idle_world)
      \<and> fst (generate_loop_part001 blocked (optimizedPrompt (golden_armor 3)) (file_type photo)
                (Some ''QUJD'') (candidateCount (golden_armor 3))
                (start (reset blank_ui) (started photo idle_world))) = None)
   \<and> (generatedImages (view (handleGenerate_part001 blocked (golden_armor 3) blank_ui idle_world))
        = produced (attemptLog
            (handleGenerate_part001 blocked (golden_armor 3) blank_ui idle_world))
      \<and> error (view (handleGenerate_part001 blocked (golden_armor 3) blank_ui idle_world)) = None
      \<and> successMessage (view (handleGenerate_part001 blocked (golden_armor 3) blank_ui idle_world))
        = None)"
proof -
  have ref: "referenceImage (golden_armor 3) = Some photo"
    by (simp add: golden_armor_def)
  have ok: "\<not> (mode (golden_armor 3) = Generate \<and> trim (prompt (golden_armor 3)) = [])"
    by (simp add: golden_armor_def trim_def js_whitespace_def)
  have ok': "\<not> (mode (golden_armor 3) = Generate \<and> prompt (golden_armor 3) = [])"
    by (simp add: golden_armor_def)
  have enc: "fileToBase64 blocked photo idle_world
      = (Inr (Some ''QUJD''), started photo idle_world)"
    by (simp add: encode_defs scenario_defs)
  have enc2: "fileToBase64 two_misses photo idle_world
      = (Inr (Some ''QUJD''), started photo idle_world)"
    by (simp add: encode_defs scenario_defs)
  have enc': "fileToBase64_part001 blocked photo idle_world
      = (Inr (Some ''QUJD''), started photo idle_world)"
    by (simp add: encode_defs scenario_defs)
  have log: "attemptLog (handleGenerate blocked (golden_armor 3) blank_ui idle_world)
     = [(1, NoImage (Some ''SAFETY'')), (2, NoImage (Some ''SAFETY'')),
        (3, NoImage (Some ''SAFETY''))]"
    by (simp add: session_defs wrapper_defs encode_defs classify_defs scenario_defs)
  have none: "produced (attemptLog (handleGenerate blocked (golden_armor 3) blank_ui idle_world))
      = []"
    by (simp add: log)
  have log2: "attemptLog (handleGenerate two_misses (golden_armor 3) blank_ui idle_world)
       = [(1, NoImage (Some ''NO_IMAGE'')), (2, NoImage (Some ''NO_IMAGE'')),
          (3, Produced ''data:image/png;base64,QUJD'')]"
    by (simp add: session_defs wrapper_defs encode_defs classify_defs scenario_defs)
  have some: "produced (attemptLog (handleGenerate two_misses (golden_armor 3) blank_ui idle_world))
      \<noteq> []"
    by (simp add: log2)
  have quiet: "fst (generate_loop_part001 blocked (optimizedPrompt (golden_armor 3))
                 (file_type photo) (Some ''QUJD'') (candidateCount (golden_armor 3))
                 (start (reset blank_ui) (started photo idle_world))) = None"
    by (simp add: session_part001_defs wrapper_part001_defs encode_defs classify_defs
          scenario_defs)
  note a = handleGenerate_nothing_generated[where v=blank_ui, THEN conjunct1, THEN mp,
      OF conjI[OF ref conjI[OF ok conjI[OF enc none]]]]
  note b = handleGenerate_nothing_generated[where v=blank_ui, THEN conjunct2, THEN conjunct1,
      THEN mp, OF conjI[OF ref conjI[OF ok conjI[OF enc2 some]]]]
  note c = handleGenerate_nothing_generated[where v=blank_ui, THEN conjunct2, THEN conjunct2,
      THEN mp, OF conjI[OF ref conjI[OF ok' conjI[OF enc' quiet]]]]
  show ?thesis
    by (intro conjI ref ok ok' enc enc2 enc' log none some quiet a b c)
qed

subsection \<open>Two attempts without an image, then one with\<close>

lemma produced_third:
  "map snd entries = [NoImage a, NoImage b, Produced u] \<Longrightarrow> produced entries = [u]"
  by (auto simp add: map_eq_Cons_conv)

lemma handleGenerate_all_attempts:
  assumes "referenceImage inp = Some f"
    and "\<not> (mode inp = Generate \<and> trim (prompt inp) = [])"
    and "fileToBase64 e f w = (Inr b64, w1)"
  shows "attemptCount (handleGenerate e inp v w) = nat (min (candidateCount inp) 3)"
  using handleGenerate_run(2)[OF assms refl, where v=v]
    generate_loop_count[of "start (reset v) w1" 0 e "optimizedPrompt inp" "file_type f" b64
      "min (candidateCount inp) 3"]
  by (simp add: start_def)

text \<open>
  Claim C7, as amended. A run with a reference image and a target count of 3, whose
  attempts 1 and 2 end without an image and whose attempt 3 produces one: in
  \<^verbatim>\<open>ImageStudio.jsx\<close> the run ends after exactly these 3 attempts, of the 6 allowed, with
  exactly that one image collected and published. In \<^verbatim>\<open>part_001\<close> the run does not end
  there: it makes at least a fourth attempt, and a loop that ends without an exception
  ends with 3 images or with all 6 attempts used.
\<close>

theorem handleGenerate_third_attempt:
  "(referenceImage inp = Some f \<and> \<not> (mode inp = Generate \<and> trim (prompt inp) = [])
      \<and> fileToBase64 e f w = (Inr b64, w1) \<and> candidateCount inp = 3
      \<and> take 3 (map snd (attemptLog (handleGenerate e inp v w)))
          = [NoImage fr1, NoImage fr2, Produced url] \<longrightarrow>
        attemptCount (handleGenerate e inp v w) = 3
      \<and> newGeneratedImages (handleGenerate e inp v w) = [url]
      \<and> generatedImages (view (handleGenerate e inp v w)) = [url]
      \<and> successMessage (view (handleGenerate e inp v w)) = Some (Generated 1))
   \<and> (referenceImage inp = Some f \<and> \<not> (mode inp = Generate \<and> prompt inp = [])
      \<and> fileToBase64_part001 e f w = (Inr b64, w1) \<and> candidateCount inp = 3
      \<and> take 3 (map snd (attemptLog (handleGenerate_part001 e inp v w)))
          = [NoImage fr1, NoImage fr2, Produced url] \<longrightarrow>
        4 \<le> attemptCount (handleGenerate_part001 e inp v w))
   \<and> (referenceImage inp = Some f \<and> \<not> (mode inp = Generate \<and> prompt inp = [])
      \<and> fileToBase64_part001 e f w = (Inr b64, w1) \<and> candidateCount inp = 3
      \<and> fst (generate_loop_part001 e (optimizedPrompt inp) (file_type f) b64
                (candidateCount inp) (start (reset v) w1)) = None \<longrightarrow>
        length (newGeneratedImages (handleGenerate_part001 e inp v w)) = 3
      \<or> attemptCount (handleGenerate_part001 e inp v w) = 6)"
proof (intro conjI impI)
  assume a: "referenceImage inp = Some f \<and> \<not> (mode inp = Generate \<and> trim (prompt inp) = [])
      \<and> fileToBase64 e f w = (Inr b64, w1) \<and> candidateCount inp = 3
      \<and> take 3 (map snd (attemptLog (handleGenerate e inp v w)))
          = [NoImage fr1, NoImage fr2, Produced url]"
  let ?s = "handleGenerate e inp v w"
  have acc: "referenceImage inp = Some f" "\<not> (mode inp = Generate \<and> trim (prompt inp) = [])"
    "fileToBase64 e f w = (Inr b64, w1)"
    using a by simp_all
  note run = handleGenerate_run[OF acc refl, where v=v]
  have count: "attemptCount ?s = 3"
    using handleGenerate_all_attempts[OF acc, of v] a by simp
  have con: "consistent ?s"
    by (rule handleGenerate_consistent)
  then have "length (attemptLog ?s) = 3"
    using count by (simp add: consistent_def)
  then have "map snd (attemptLog ?s) = [NoImage fr1, NoImage fr2, Produced url]"
    using a by simp
  then have imgs: "newGeneratedImages ?s = [url]"
    using con produced_third by (simp add: consistent_def)
  show "attemptCount ?s = 3"
    by (rule count)
  show "newGeneratedImages ?s = [url]"
    by (rule imgs)
  show "generatedImages (view ?s) = [url]"
    using imgs run(1,5) by simp
  show "successMessage (view ?s) = Some (Generated 1)"
    using imgs run(1,7) by simp
next
  assume a: "referenceImage inp = Some f \<and> \<not> (mode inp = Generate \<and> prompt inp = [])
      \<and> fileToBase64_part001 e f w = (Inr b64, w1) \<and> candidateCount inp = 3
      \<and> take 3 (map snd (attemptLog (handleGenerate_part001 e inp v w)))
          = [NoImage fr1, NoImage fr2, Produced url]"
  let ?s = "handleGenerate_part001 e inp v w"
  have acc: "referenceImage inp = Some f" "\<not> (mode inp = Generate \<and> prompt inp = [])"
    "fileToBase64_part001 e f w = (Inr b64, w1)"
    using a by simp_all
  obtain r L where loop: "generate_loop_part001 e (optimizedPrompt inp) (file_type f) b64
      (candidateCount inp) (start (reset v) w1) = (r, L)"
    by (cases "generate_loop_part001 e (optimizedPrompt inp) (file_type f) b64
      (candidateCount inp) (start (reset v) w1)")
  note run = handleGenerate_part001_run[OF acc loop]
  have con: "consistent ?s"
    by (rule handleGenerate_part001_consistent)
  have "length (take 3 (map snd (attemptLog ?s))) = 3"
    using a by simp
  then have three: "3 \<le> attemptCount ?s"
    using con by (simp add: consistent_def)
  have "attemptCount ?s \<noteq> 3"
  proof
    assume count: "attemptCount ?s = 3"
    then have "length (attemptLog ?s) = 3"
      using con by (simp add: consistent_def)
    then have outcomes: "map snd (attemptLog ?s) = [NoImage fr1, NoImage fr2, Produced url]"
      using a by simp
    then have imgs: "newGeneratedImages ?s = [url]"
      using con produced_third by (simp add: consistent_def)
    show False
    proof (cases r)
      case None
      have "newGeneratedImages L = [url]"
        using run(1) imgs by (simp only:)
      then have len: "length (newGeneratedImages L) = 1"
        by simp
      have "attemptCount L = attemptCount ?s"
        using run(2) by (simp only:)
      with count have cnt: "attemptCount L = 3"
        by (simp only:)
      have "\<not> (int (length (newGeneratedImages L)) < candidateCount inp
                \<and> int (attemptCount L) < candidateCount inp * 2)"
        using generate_loop_part001_exit[of e "optimizedPrompt inp" "file_type f" b64
            "candidateCount inp" "start (reset v) w1" L] loop None
        by simp
      then show False
        using len cnt a by simp
    next
      case (Some err)
      then have "attemptLog L \<noteq> [] \<and> snd (last (attemptLog L)) = Failed err"
        using generate_loop_part001_abort[of e "optimizedPrompt inp" "file_type f" b64
            "candidateCount inp" "start (reset v) w1" err L] loop
        by simp
      then have "last (map snd (attemptLog ?s)) = Failed err"
        by (simp add: run(3) last_map)
      then show False
        using outcomes by simp
    qed
  qed
  with three show "4 \<le> attemptCount ?s"
    by simp
next
  assume a: "referenceImage inp = Some f \<and> \<not> (mode inp = Generate \<and> prompt inp = [])
      \<and> fileToBase64_part001 e f w = (Inr b64, w1) \<and> candidateCount inp = 3
      \<and> fst (generate_loop_part001 e (optimizedPrompt inp) (file_type f) b64
                (candidateCount inp) (start (reset v) w1)) = None"
  let ?s = "handleGenerate_part001 e inp v w"
  have acc: "referenceImage inp = Some f" "\<not> (mode inp = Generate \<and> prompt inp = [])"
    "fileToBase64_part001 e f w = (Inr b64, w1)"
    using a by simp_all
  obtain L where loop: "generate_loop_part001 e (optimizedPrompt inp) (file_type f) b64
      (candidateCount inp) (start (reset v) w1) = (None, L)"
    using a by (cases "generate_loop_part001 e (optimizedPrompt inp) (file_type f) b64
      (candidateCount inp) (start (reset v) w1)") simp
  note run = handleGenerate_part001_run[OF acc loop]
  have "\<not> (int (length (newGeneratedImages L)) < 3 \<and> int (attemptCount L) < 3 * 2)"
    using generate_loop_part001_exit[OF loop] a by simp
  moreover have "int (attemptCount ?s) \<le> 6 \<and> int (length (newGeneratedImages ?s)) \<le> 3"
    using handleGenerate_part001_count[of e inp v w] a by simp
  ultimately show "length (newGeneratedImages ?s) = 3 \<or> attemptCount ?s = 6"
    using run(1,2) by auto
qed

text \<open>
  The claim as first stated fails on \<^verbatim>\<open>part_001\<close>: after two attempts without an image and
  a third with one, the loop goes on, and the run ends after 5 attempts with 3 images.
\<close>

theorem handleGenerate_third_attempt_counterexample:
  "referenceImage (golden_armor 3) = Some photo
   \<and> candidateCount (golden_armor 3) = 3
   \<and> attemptLog (handleGenerate_part001 recovering (golden_armor 3) blank_ui idle_world)
     = [(1, NoImage (Some ''NO_IMAGE'')), (2, NoImage (Some ''NO_IMAGE'')),
        (3, Produced ''data:image/png;base64,QUJD''),
        (4, Produced ''data:image/png;base64,QUJD''),
        (5, Produced ''data:image/png;base64,QUJD'')]
   \<and> attemptCount (handleGenerate_part001 recovering (golden_armor 3) blank_ui idle_world) = 5
   \<and> length (generatedImages
               (view (handleGenerate_part001 recovering (golden_armor 3) blank_ui idle_world)))
     = 3"
  by (simp add: session_part001_defs wrapper_part001_defs encode_defs classify_defs scenario_defs)


text \<open>
  The theorem at such a run of \<^verbatim>\<open>ImageStudio.jsx\<close>, and at a run of \<^verbatim>\<open>part_001\<close> whose
  attempts 4 and 5 produce an image too.
\<close>

theorem handleGenerate_third_attempt_witness:
  "(referenceImage (golden_armor 3) = Some photo
      \<and> \<not> (mode (golden_armor 3) = Generate \<and> trim (prompt (golden_armor 3)) = [])
      \<and> fileToBase64 two_misses photo idle_world
        = (Inr (Some ''QUJD''), started photo idle_world)
      \<and> candidateCount (golden_armor 3) = 3
      \<and> take 3 (map snd (attemptLog (handleGenerate two_misses (golden_armor 3) blank_ui
                                        idle_world)))
        = [NoImage (Some ''NO_IMAGE''), NoImage (Some ''NO_IMAGE''),
           Produced ''data:image/png;base64,QUJD''])
   \<and> (attemptCount (handleGenerate two_misses (golden_armor 3) blank_ui idle_world) = 3
      \<and> newGeneratedImages (handleGenerate two_misses (golden_armor 3) blank_ui idle_world)
        = [''data:image/png;base64,QUJD'']
      \<and> generatedImages (view (handleGenerate two_misses (golden_armor 3) blank_ui idle_world))
        = [''data:image/png;base64,QUJD'']
      \<and> successMessage (view (handleGenerate two_misses (golden_armor 3) blank_ui idle_world))
        = Some (Generated 1))
   \<and> (referenceImage (golden_armor 3) = Some photo
      \<and> \<not> (mode (golden_armor 3) = Generate \<and> prompt (golden_armor 3) = [])
      \<and> fileToBase64_part001 recovering photo idle_world
        = (Inr (Some ''QUJD''), started photo idle_world)
      \<and> candidateCount (golden_armor 3) = 3
      \<and> take 3 (map snd (attemptLog (handleGenerate_part001 recovering (golden_armor 3) blank_ui
                                        idle_world)))
        = [NoImage (Some ''NO_IMAGE''), NoImage (Some ''NO_IMAGE''),
           Produced ''data:image/png;base64,QUJD''])
   \<and> 4 \<le> attemptCount (handleGenerate_part001 recovering (golden_armor 3) blank_ui idle_world)
   \<and> (referenceImage (golden_armor 3) = Some photo
      \<and> \<not> (mode (golden_armor 3) = Generate \<and> prompt (golden_armor 3) = [])
      \<and> fileToBase64_part001 recovering photo idle_world
        = (Inr (Some ''QUJD''), started photo idle_world)
      \<and> candidateCount (golden_armor 3) = 3
      \<and> fst (generate_loop_part001 recovering (optimizedPrompt (golden_armor 3))
                (file_type photo) (Some ''QUJD'') (candidateCount (golden_armor 3))
                (start (reset blank_ui) (started photo idle_world))) = None)
   \<and> (length (newGeneratedImages
                 (handleGenerate_part001 recovering (golden_armor 3) blank_ui idle_world)) = 3
      \<or> attemptCount (handleGenerate_part001 recovering (golden_armor 3) blank_ui idle_world)
        = 6)"
proof -
  have ref: "referenceImage (golden_armor 3) = Some photo"
    by (simp add: golden_armor_def)
  have three: "candidateCount (golden_armor 3) = 3"
    by (simp add: golden_armor_def)
  have ok: "\<not> (mode (golden_armor 3) = Generate \<and> trim (prompt (golden_armor 3)) = [])"
    by (simp add: golden_armor_def trim_def js_whitespace_def)
  have ok': "\<not> (mode (golden_armor 3) = Generate \<and> prompt (golden_armor 3) = [])"
    by (simp add: golden_armor_def)
  have enc: "fileToBase64 two_misses photo idle_world
      = (Inr (Some ''QUJD''), started photo idle_world)"
    by (simp add: encode_defs scenario_defs)
  have enc': "fileToBase64_part001 recovering photo idle_world
      = (Inr (Some ''QUJD''), started photo idle_world)"
    by (simp add: encode_defs scenario_defs)
  have log: "take 3 (map snd (attemptLog (handleGenerate two_misses (golden_armor 3) blank_ui
                                            idle_world)))
      = [NoImage (Some ''NO_IMAGE''), NoImage (Some ''NO_IMAGE''),
         Produced ''data:image/png;base64,QUJD'']"
    by (simp add: session_defs wrapper_defs encode_defs classify_defs scenario_defs)
  have log': "take 3 (map snd (attemptLog (handleGenerate_part001 recovering (golden_armor 3)
                                             blank_ui idle_world)))
      = [NoImage (Some ''NO_IMAGE''), NoImage (Some ''NO_IMAGE''),
         Produced ''data:image/png;base64,QUJD'']"
    by (simp add: session_part001_defs wrapper_part001_defs encode_defs classify_defs
          scenario_defs)
  have quiet: "fst (generate_loop_part001 recovering (optimizedPrompt (golden_armor 3))
                 (file_type photo) (Some ''QUJD'') (candidateCount (golden_armor 3))
                 (start (reset blank_ui) (started photo idle_world))) = None"
    by (simp add: session_part001_defs wrapper_part001_defs encode_defs classify_defs
          scenario_defs)
  note a = handleGenerate_third_attempt[where v=blank_ui, THEN conjunct1, THEN mp,
      OF conjI[OF ref conjI[OF ok conjI[OF enc conjI[OF three log]]]]]
  note b = handleGenerate_third_attempt[where v=blank_ui, THEN conjunct2, THEN conjunct1,
      THEN mp, OF conjI[OF ref conjI[OF ok' conjI[OF enc' conjI[OF three log']]]]]
  note c = handleGenerate_third_attempt[where v=blank_ui, THEN conjunct2, THEN conjunct2,
      THEN mp, OF conjI[OF ref conjI[OF ok' conjI[OF enc' conjI[OF three quiet]]]]]
  show ?thesis
    by (intro conjI ref three ok ok' enc enc' log log' quiet a b c)
qed

end
